theory Spec2Isabelle
  imports Complex_Main "HOL-Library.Product_Lexorder"
begin


section \<open>Python values and strings\<close>

text \<open>
  Python strings are modelled as \<open>string\<close>, the UTF-8 bytes of the text; the Chinese
  literals of the source are written out byte by byte.  A value produced by
  \<open>json.loads\<close> is a \<open>json\<close>; a dictionary is the list of its items in insertion
  order.
\<close>

datatype json =
    JNull
  | JBool bool
  | JInt int
  | JFloat real
  | JStr string
  | JList "json list"
  | JDict "(string \<times> json) list"

text \<open>\<open>str(n)\<close> for a Python integer: the decimal digits, with a minus sign.\<close>

definition digit_char :: "nat \<Rightarrow> char" where
  "digit_char d = ''0123456789'' ! d"

fun str_nat :: "nat \<Rightarrow> string" where
  "str_nat n = (if n < 10 then [digit_char n] else str_nat (n div 10) @ [digit_char (n mod 10)])"

declare str_nat.simps [simp del]

definition str_int :: "int \<Rightarrow> string" where
  "str_int i = (if i < 0 then CHR ''-'' # str_nat (nat (- i)) else str_nat (nat i))"

text \<open>The message literals of \<open>checkin.py\<close>, as UTF-8 bytes.\<close>

definition MSG_NO_CREDENTIAL :: string where
  "MSG_NO_CREDENTIAL = [CHR 0xE6, CHR 0xB2, CHR 0xA1, CHR 0xE6, CHR 0x9C, CHR 0x89, CHR 0xE7,
     CHR 0x99, CHR 0xBB, CHR 0xE5, CHR 0xBD, CHR 0x95, CHR 0xE5, CHR 0x87, CHR 0xAD, CHR 0xE8,
     CHR 0xAF, CHR 0x81]"

definition MSG_NO_CONTENT :: string where
  "MSG_NO_CONTENT = [CHR 0xE6, CHR 0x9C, CHR 0xAA, CHR 0xE9, CHR 0x85, CHR 0x8D, CHR 0xE7,
     CHR 0xBD, CHR 0xAE, CHR 0xE6, CHR 0x89, CHR 0x93, CHR 0xE5, CHR 0x8D, CHR 0xA1, CHR 0xE5,
     CHR 0x86, CHR 0x85, CHR 0xE5, CHR 0xAE, CHR 0xB9]"

definition MSG_BAD_COOKIE :: string where
  "MSG_BAD_COOKIE = ''Cookie'' @ [CHR 0xE6, CHR 0xA0, CHR 0xBC, CHR 0xE5, CHR 0xBC, CHR 0x8F,
     CHR 0xE9, CHR 0x94, CHR 0x99, CHR 0xE8, CHR 0xAF, CHR 0xAF]"

definition MSG_CHECKIN_OK :: string where
  "MSG_CHECKIN_OK = [CHR 0xE6, CHR 0x89, CHR 0x93, CHR 0xE5, CHR 0x8D, CHR 0xA1, CHR 0xE6,
     CHR 0x88, CHR 0x90, CHR 0xE5, CHR 0x8A, CHR 0x9F]"

definition MSG_RETRY_PREFIX :: string where
  "MSG_RETRY_PREFIX = [CHR 0xE9, CHR 0x87, CHR 0x8D, CHR 0xE8, CHR 0xAF, CHR 0x95]"

definition MSG_RETRY_SUFFIX :: string where
  "MSG_RETRY_SUFFIX = [CHR 0xE6, CHR 0xAC, CHR 0xA1, CHR 0xE5, CHR 0x90, CHR 0x8E, CHR 0xE4,
     CHR 0xBB, CHR 0x8D, CHR 0xE5, CHR 0xA4, CHR 0xB1, CHR 0xE8, CHR 0xB4, CHR 0xA5] @ '': ''"

definition TITLE_PREFIX :: string where
  "TITLE_PREFIX = ''WPS'' @ [CHR 0xE6, CHR 0x89, CHR 0x93, CHR 0xE5, CHR 0x8D, CHR 0xA1]"

definition TITLE_OK :: string where
  "TITLE_OK = [CHR 0xE6, CHR 0x88, CHR 0x90, CHR 0xE5, CHR 0x8A, CHR 0x9F]"

definition TITLE_FAIL :: string where
  "TITLE_FAIL = [CHR 0xE5, CHR 0xA4, CHR 0xB1, CHR 0xE8, CHR 0xB4, CHR 0xA5]"

definition DESP_USER :: string where
  "DESP_USER = [CHR 0xE7, CHR 0x94, CHR 0xA8, CHR 0xE6, CHR 0x88, CHR 0xB7, CHR 0xEF, CHR 0xBC,
     CHR 0x9A]"

definition DESP_RESULT :: string where
  "DESP_RESULT = [CHR 0x0A, CHR 0xE7, CHR 0xBB, CHR 0x93, CHR 0xE6, CHR 0x9E, CHR 0x9C, CHR 0xEF,
     CHR 0xBC, CHR 0x9A]"


section \<open>The store: users and check-in history (database.py)\<close>

text \<open>The dataclass \<open>User\<close>; its field \<open>id\<close> is \<open>user_id\<close> here.\<close>

record user =
  user_id :: int
  wps_uid :: int
  nickname :: string
  cookies :: string
  input_name :: string
  latitude :: real
  longitude :: real
  is_active :: bool
  created_at :: string
  last_checkin :: "string option"
  sendkey :: "string option"
  checkin_hour :: "int option"
  checkin_minute :: "int option"

text \<open>The dataclass \<open>CheckinLog\<close>, a row of the table \<open>checkin_logs\<close>.\<close>

record checkin_log =
  log_id :: int
  log_user_id :: int
  log_status :: string
  log_message :: string
  log_created_at :: string

text \<open>
  One call of \<open>execute_checkin\<close> (the form submitter) with its arguments, one call of
  \<open>send_user_notification\<close>, and one \<open>requests.get\<close> to the notification service.
\<close>

record submission =
  sub_cookies :: json
  sub_input_name :: string
  sub_latitude :: real
  sub_longitude :: real

record notification =
  ntf_user :: user
  ntf_success :: bool
  ntf_message :: string

record http_request =
  req_sendkey :: string
  req_title :: string
  req_desp :: string

text \<open>
  The state the check-in code reads and writes: the two tables with their AUTOINCREMENT
  counters, and the effects on the outside world in the order they
  happen (form submissions, notification calls, HTTP requests, sleeps in seconds).
\<close>

record world =
  users :: "user list"
  users_seq :: int
  checkin_logs :: "checkin_log list"
  checkin_logs_seq :: int
  submissions :: "submission list"
  notifications :: "notification list"
  http_requests :: "http_request list"
  sleeps :: "nat list"

text \<open>
  What the outside world answers: \<open>json.loads\<close> (\<open>None\<close> when it raises),
  \<open>json.dumps\<close>, the outcome of the i-th call of the form submitter since the start, and the clock.
\<close>

datatype outcome = Returned bool string | Raised string

record env =
  json_loads :: "string \<Rightarrow> json option"
  json_dumps :: "json \<Rightarrow> string"
  submit_outcome :: "nat \<Rightarrow> outcome"
  timestamp :: string

text \<open>
  The operations of \<open>Database\<close> on the tables; the database itself is taken to
  answer every statement, so none of them raises.
\<close>

definition get_user :: "int \<Rightarrow> world \<Rightarrow> user option" where
  "get_user uid w = find (\<lambda>u. user_id u = uid) (users w)"

definition add_checkin_log :: "env \<Rightarrow> int \<Rightarrow> string \<Rightarrow> string \<Rightarrow> world \<Rightarrow> world" where
  "add_checkin_log e uid st message w =
     w\<lparr>checkin_logs := checkin_logs w @
          [\<lparr>log_id = checkin_logs_seq w + 1, log_user_id = uid, log_status = st,
            log_message = message, log_created_at = timestamp e\<rparr>],
       checkin_logs_seq := checkin_logs_seq w + 1\<rparr>"

definition update_last_checkin :: "env \<Rightarrow> int \<Rightarrow> world \<Rightarrow> world" where
  "update_last_checkin e uid w =
     w\<lparr>users := map (\<lambda>u. if user_id u = uid then u\<lparr>last_checkin := Some (timestamp e)\<rparr> else u)
                   (users w)\<rparr>"


section \<open>The check-in of one account (checkin.py)\<close>

text \<open>
  \<open>send_user_notification\<close>: nothing is sent for a user without SendKey; otherwise one
  request goes out, and whatever it answers or raises is only logged.
\<close>

definition send_user_notification :: "user \<Rightarrow> bool \<Rightarrow> string \<Rightarrow> world \<Rightarrow> world" where
  "send_user_notification u success message w =
     (let w1 = w\<lparr>notifications := notifications w @
                   [\<lparr>ntf_user = u, ntf_success = success, ntf_message = message\<rparr>]\<rparr>
      in case sendkey u of
           None \<Rightarrow> w1
         | Some k \<Rightarrow>
             if k = [] then w1
             else w1\<lparr>http_requests := http_requests w1 @
                     [\<lparr>req_sendkey = k,
                       req_title = TITLE_PREFIX @ (if success then TITLE_OK else TITLE_FAIL),
                       req_desp = DESP_USER
                         @ (if nickname u \<noteq> [] then nickname u else str_int (wps_uid u))
                         @ DESP_RESULT @ message\<rparr>]\<rparr>)"

text \<open>One call of the form submitter: the call is recorded, the world gives the outcome.\<close>

definition execute_checkin ::
  "env \<Rightarrow> json \<Rightarrow> string \<Rightarrow> real \<Rightarrow> real \<Rightarrow> world \<Rightarrow> outcome \<times> world" where
  "execute_checkin e cj inp lat lon w =
     (submit_outcome e (length (submissions w)),
      w\<lparr>submissions := submissions w @
           [\<lparr>sub_cookies = cj, sub_input_name = inp, sub_latitude = lat, sub_longitude = lon\<rparr>]\<rparr>)"

text \<open>
  The retry loop \<open>for attempt in range(max_retries + 1)\<close>, from \<open>attempt\<close> up to \<open>n\<close>.
  It leaves either by the \<open>return True\<close> of a successful attempt (\<open>None\<close>) or at the
  end of the range with \<open>last_error\<close> (\<open>Some last_error\<close>, itself \<open>None\<close> when no
  attempt was made).
\<close>

function attempts_loop ::
  "env \<Rightarrow> int \<Rightarrow> user \<Rightarrow> json \<Rightarrow> nat \<Rightarrow> nat \<Rightarrow> string option \<Rightarrow> world \<Rightarrow> string option option \<times> world"
where
  "attempts_loop e uid u cj attempt n last_error w =
     (if attempt < n then
        let w1 = (if attempt > 0 then w\<lparr>sleeps := sleeps w @ [60]\<rparr> else w);
            (out, w2) = execute_checkin e cj (input_name u) (latitude u) (longitude u) w1
        in case out of
             Returned success message \<Rightarrow>
               if success then
                 let m = (if message \<noteq> [] then message else MSG_CHECKIN_OK);
                     w3 = add_checkin_log e uid ''success'' m w2;
                     w4 = update_last_checkin e uid w3;
                     w5 = send_user_notification u True m w4
                 in (None, w5)
               else attempts_loop e uid u cj (attempt + 1) n (Some message) w2
           | Raised err \<Rightarrow> attempts_loop e uid u cj (attempt + 1) n (Some err) w2
      else (Some last_error, w))"
  by pat_completeness auto
termination
  by (relation "measure (\<lambda>(e, uid, u, cj, attempt, n, last_error, w). n - attempt)") auto

declare attempts_loop.simps [simp del]

definition do_checkin_for_user :: "env \<Rightarrow> int \<Rightarrow> int \<Rightarrow> world \<Rightarrow> bool \<times> world" where
  "do_checkin_for_user e uid max_retries w =
     (case get_user uid w of
        None \<Rightarrow> (False, w)
      | Some u \<Rightarrow>
          if cookies u = [] then
            (False, send_user_notification u False MSG_NO_CREDENTIAL
                      (add_checkin_log e uid ''failed'' MSG_NO_CREDENTIAL w))
          else if input_name u = [] then
            (False, send_user_notification u False MSG_NO_CONTENT
                      (add_checkin_log e uid ''failed'' MSG_NO_CONTENT w))
          else
            (case json_loads e (cookies u) of
               None \<Rightarrow>
                 (False, send_user_notification u False MSG_BAD_COOKIE
                           (add_checkin_log e uid ''failed'' MSG_BAD_COOKIE w))
             | Some cj \<Rightarrow>
                 (case attempts_loop e uid u cj 0 (nat (max_retries + 1)) None w of
                    (None, w') \<Rightarrow> (True, w')
                  | (Some last_error, w') \<Rightarrow>
                      let final_message = MSG_RETRY_PREFIX @ str_int max_retries @ MSG_RETRY_SUFFIX
                            @ (case last_error of None \<Rightarrow> ''None'' | Some err \<Rightarrow> err)
                      in (False, send_user_notification u False final_message
                                   (add_checkin_log e uid ''failed'' final_message w')))))"


section \<open>Credential blobs (checkin.py, wps_auth.py)\<close>

text \<open>
  Python dictionaries as item lists: \<open>d.get(k, default)\<close>, \<open>k in d\<close> and the
  assignment \<open>d[k] = v\<close>, which keeps the place of a key already present.
\<close>

definition dict_get :: "(string \<times> 'v) list \<Rightarrow> string \<Rightarrow> 'v \<Rightarrow> 'v" where
  "dict_get d k dflt = (case map_of d k of None \<Rightarrow> dflt | Some v \<Rightarrow> v)"

definition dict_has :: "(string \<times> 'v) list \<Rightarrow> string \<Rightarrow> bool" where
  "dict_has d k = (map_of d k \<noteq> None)"

fun dict_set :: "(string \<times> 'v) list \<Rightarrow> string \<Rightarrow> 'v \<Rightarrow> (string \<times> 'v) list" where
  "dict_set [] k v = [(k, v)]"
| "dict_set ((k', v') # d) k v = (if k' = k then (k, v) # d else (k', v') # dict_set d k v)"

datatype py_error = AttributeError | ValueError string

text \<open>
  The body of the first loop of \<open>convert_cookies_to_playwright\<close>: the Playwright
  record of one item of the mapping.  \<open>str_of\<close> is Python's \<open>str\<close>.
\<close>

definition playwright_cookie :: "(json \<Rightarrow> string) \<Rightarrow> string \<Rightarrow> json \<Rightarrow> json" where
  "playwright_cookie str_of name info =
     (case info of
        JDict d \<Rightarrow>
          JDict [(''name'', JStr name),
                 (''value'', dict_get d ''value'' (JStr [])),
                 (''domain'', dict_get d ''domain'' (JStr ''.wps.cn'')),
                 (''path'', dict_get d ''path'' (JStr ''/''))]
      | _ \<Rightarrow>
          JDict [(''name'', JStr name),
                 (''value'', JStr (str_of info)),
                 (''domain'', JStr ''.wps.cn''),
                 (''path'', JStr ''/'')])"

text \<open>
  The body of the second loop: the copy under \<open>.kdocs.cn\<close> of a record whose domain
  is \<open>.wps.cn\<close>, nothing for any other record.
\<close>

definition kdocs_cookie :: "json \<Rightarrow> json list" where
  "kdocs_cookie c =
     (case c of
        JDict d \<Rightarrow>
          if map_of d ''domain'' = Some (JStr ''.wps.cn'')
          then [JDict (dict_set d ''domain'' (JStr ''.kdocs.cn''))] else []
      | _ \<Rightarrow> [])"

text \<open>
  \<open>convert_cookies_to_playwright\<close>: a list is returned as it is; the items of a
  mapping are converted and the \<open>.kdocs.cn\<close> copies appended; any other value has no
  \<open>items\<close>, which raises AttributeError.
\<close>

definition convert_cookies_to_playwright :: "(json \<Rightarrow> string) \<Rightarrow> json \<Rightarrow> py_error + json list" where
  "convert_cookies_to_playwright str_of cookies_in =
     (case cookies_in of
        JList xs \<Rightarrow> Inr xs
      | JDict items \<Rightarrow>
          let result = map (\<lambda>(name, info). playwright_cookie str_of name info) items;
              kdocs_cookies = concat (map kdocs_cookie result)
          in Inr (result @ kdocs_cookies)
      | _ \<Rightarrow> Inl AttributeError)"

text \<open>
  The two shapes of a credential blob, in the words of the specification: a token has a
  name, a value, a scope domain and a path; the mapping form maps each token name to
  \<open>{value, domain, path}\<close>, the flat form is the sequence of the records
  \<open>{name, value, domain, path}\<close> of the same tokens.
\<close>

record token =
  tok_name :: string
  tok_value :: string
  tok_domain :: string
  tok_path :: string

definition token_record :: "token \<Rightarrow> json" where
  "token_record t =
     JDict [(''name'', JStr (tok_name t)), (''value'', JStr (tok_value t)),
            (''domain'', JStr (tok_domain t)), (''path'', JStr (tok_path t))]"

definition spec_mapping_form :: "token list \<Rightarrow> json" where
  "spec_mapping_form ts =
     JDict (map (\<lambda>t. (tok_name t,
                       JDict [(''value'', JStr (tok_value t)), (''domain'', JStr (tok_domain t)),
                              (''path'', JStr (tok_path t))])) ts)"

definition spec_flat_form :: "token list \<Rightarrow> json" where
  "spec_flat_form ts = JList (map token_record ts)"


text \<open>
  What \<open>execute_checkin\<close> returns once the browser is started: the cookies are
  converted inside its \<open>try\<close> block, so an exception of the conversion comes back as
  \<open>(False, str(e))\<close>; otherwise the page decides the outcome.  \<open>err_text\<close> is
  Python's \<open>str\<close> on the exception.
\<close>

definition execute_checkin_result ::
  "(json \<Rightarrow> string) \<Rightarrow> (py_error \<Rightarrow> string) \<Rightarrow> json \<Rightarrow> outcome \<Rightarrow> outcome" where
  "execute_checkin_result str_of err_text cookies_in page =
     (case convert_cookies_to_playwright str_of cookies_in of
        Inl err \<Rightarrow> Returned False (err_text err)
      | Inr playwright_cookies \<Rightarrow> page)"


section \<open>The login handshake (wps_auth.py)\<close>

definition MSG_PAGE_UNINIT :: string where
  "MSG_PAGE_UNINIT = [CHR 0xE9, CHR 0xA1, CHR 0xB5, CHR 0xE9, CHR 0x9D, CHR 0xA2, CHR 0xE6,
     CHR 0x9C, CHR 0xAA, CHR 0xE5, CHR 0x88, CHR 0x9D, CHR 0xE5, CHR 0xA7, CHR 0x8B, CHR 0xE5,
     CHR 0x8C, CHR 0x96]"

definition MSG_NO_COOKIE :: string where
  "MSG_NO_COOKIE = [CHR 0xE6, CHR 0x9C, CHR 0xAA, CHR 0xE8, CHR 0x8E, CHR 0xB7, CHR 0xE5,
     CHR 0x8F, CHR 0x96, CHR 0xE5, CHR 0x88, CHR 0xB0] @ '' Cookie''"

definition MSG_LOGIN_INCOMPLETE :: string where
  "MSG_LOGIN_INCOMPLETE = [CHR 0xE7, CHR 0x99, CHR 0xBB, CHR 0xE5, CHR 0xBD, CHR 0x95, CHR 0xE6,
     CHR 0x9C, CHR 0xAA, CHR 0xE5, CHR 0xAE, CHR 0x8C, CHR 0xE6, CHR 0x88, CHR 0x90, CHR 0xEF,
     CHR 0xBC, CHR 0x8C, CHR 0xE7, CHR 0xBC, CHR 0xBA, CHR 0xE5, CHR 0xB0, CHR 0x91, CHR 0xE8,
     CHR 0xAE, CHR 0xA4, CHR 0xE8, CHR 0xAF, CHR 0x81, CHR 0xE5, CHR 0x87, CHR 0xAD, CHR 0xE8,
     CHR 0xAF, CHR 0x81]"

text \<open>
  A cookie as the browser context reports it (\<open>domain\<close> and \<open>path\<close> are read with
  \<open>get\<close> and a default), and the dataclass \<open>LoginResult\<close>.
\<close>

record browser_cookie =
  bc_name :: string
  bc_value :: string
  bc_domain :: "string option"
  bc_path :: "string option"

record login_result =
  lr_success :: bool
  lr_cookies :: "(string \<times> json) list option"
  lr_user_id :: "int option"
  lr_error :: "string option"

definition LoginResult ::
  "bool \<Rightarrow> (string \<times> json) list option \<Rightarrow> int option \<Rightarrow> string option \<Rightarrow> login_result" where
  "LoginResult s c u err = \<lparr>lr_success = s, lr_cookies = c, lr_user_id = u, lr_error = err\<rparr>"

text \<open>The authentication-token names checked by \<open>wait_for_login\<close>.\<close>

definition AUTH_COOKIE_NAMES :: "string list" where
  "AUTH_COOKIE_NAMES = [''wps_sid'', ''rtk'', ''kso_sid'']"

text \<open>The loop that turns the browser's cookies into the dictionary \<open>cookies_dict\<close>.\<close>

definition cookies_to_dict :: "browser_cookie list \<Rightarrow> (string \<times> json) list" where
  "cookies_to_dict cs =
     fold (\<lambda>c d. dict_set d (bc_name c)
                    (JDict [(''value'', JStr (bc_value c)),
                            (''domain'', JStr (case bc_domain c of None \<Rightarrow> [] | Some x \<Rightarrow> x)),
                            (''path'', JStr (case bc_path c of None \<Rightarrow> ''/'' | Some x \<Rightarrow> x))]))
          cs []"

text \<open>
  \<open>wait_for_login\<close> after its polling loop, which only waits (at most \<open>timeout\<close>
  seconds) and keeps nothing: the result is computed from the cookies read from the
  browser afterwards.  \<open>page\<close> tells whether the page was initialised; \<open>read\<close> is
  what \<open>self.page.context.cookies()\<close> gives, \<open>Inl\<close> the text of an exception;
  \<open>int_of\<close> is Python's \<open>int\<close> on a string (\<open>None\<close> when it raises).
\<close>

definition wait_for_login ::
  "(string \<Rightarrow> int option) \<Rightarrow> bool \<Rightarrow> string + browser_cookie list \<Rightarrow> login_result" where
  "wait_for_login int_of page read =
     (if \<not> page then LoginResult False None None (Some MSG_PAGE_UNINIT)
      else case read of
        Inl err \<Rightarrow> LoginResult False None None (Some err)
      | Inr cs \<Rightarrow>
          if cs = [] then LoginResult False None None (Some MSG_NO_COOKIE)
          else
            let cookies_dict = cookies_to_dict cs;
                has_auth = list_ex (\<lambda>name. dict_has cookies_dict name) AUTH_COOKIE_NAMES
            in if \<not> has_auth then LoginResult False None None (Some MSG_LOGIN_INCOMPLETE)
               else
                 let uid = (case map_of cookies_dict ''uid'' of
                              Some (JDict info) \<Rightarrow>
                                (case map_of info ''value'' of
                                   Some (JStr v) \<Rightarrow> int_of v
                                 | _ \<Rightarrow> None)
                            | _ \<Rightarrow> None)
                 in LoginResult True (Some cookies_dict) uid None)"

text \<open>
  The class \<open>WPSAuthSession\<close>.  \<open>db_user_id\<close> is the attribute that
  \<open>wait_for_scan_task\<close> adds (\<open>None\<close> while it is absent); \<open>close_calls\<close> counts
  the calls of \<open>close\<close>, which releases the browser and is taken not to raise.
\<close>

record session =
  qrcode :: "(string \<times> string) option"
  status :: string
  result :: "login_result option"
  error :: "string option"
  db_user_id :: "int option"
  close_calls :: nat

definition wait_and_login :: "login_result \<Rightarrow> session \<Rightarrow> session" where
  "wait_and_login r s =
     (if lr_success r then s\<lparr>result := Some r, status := ''success''\<rparr>
      else s\<lparr>result := Some r, status := ''failed'', error := lr_error r\<rparr>)"

definition close :: "session \<Rightarrow> session" where
  "close s = s\<lparr>close_calls := close_calls s + 1\<rparr>"


section \<open>The registry of login sessions (app.py)\<close>

definition MSG_NO_SESSION :: string where
  "MSG_NO_SESSION = [CHR 0xE4, CHR 0xBC, CHR 0x9A, CHR 0xE8, CHR 0xAF, CHR 0x9D, CHR 0xE4,
     CHR 0xB8, CHR 0x8D, CHR 0xE5, CHR 0xAD, CHR 0x98, CHR 0xE5, CHR 0x9C, CHR 0xA8]"

definition NICK_PREFIX :: string where
  "NICK_PREFIX = [CHR 0xE7, CHR 0x94, CHR 0xA8, CHR 0xE6, CHR 0x88, CHR 0xB7]"

definition NICK_NEW :: string where
  "NICK_NEW = [CHR 0xE6, CHR 0x96, CHR 0xB0, CHR 0xE7, CHR 0x94, CHR 0xA8, CHR 0xE6, CHR 0x88,
     CHR 0xB7]"

text \<open>
  The session objects are shared between the dictionary \<open>login_sessions\<close> and the
  background task that drives the login, so they live in a store of objects, and the
  dictionary holds references.  \<open>sessions\<close> is the dictionary of the HTTP sessions
  (token to type and user id); \<open>store\<close> is the database.
\<close>

record app_state =
  objects :: "nat \<Rightarrow> session"
  login_sessions :: "string \<Rightarrow> nat option"
  sessions :: "(string \<times> string \<times> int option) list"
  store :: world

datatype http_error = HTTPException int string

text \<open>\<open>create_session\<close>; \<open>token\<close> is what \<open>secrets.token_urlsafe\<close> draws.\<close>

definition create_session :: "string \<Rightarrow> string \<Rightarrow> int option \<Rightarrow> app_state \<Rightarrow> app_state" where
  "create_session token session_type uid st =
     st\<lparr>sessions := dict_set (sessions st) token (session_type, uid)\<rparr>"

definition json_of_int_option :: "int option \<Rightarrow> json" where
  "json_of_int_option x = (case x of None \<Rightarrow> JNull | Some n \<Rightarrow> JInt n)"

definition json_of_string_option :: "string option \<Rightarrow> json" where
  "json_of_string_option x = (case x of None \<Rightarrow> JNull | Some t \<Rightarrow> JStr t)"

text \<open>
  \<open>get_login_status\<close>: the reply is the dictionary \<open>result\<close> and the session cookie
  set on the response, if any; \<open>Inl\<close> is the exception raised.
\<close>

definition get_login_status ::
  "string \<Rightarrow> string \<Rightarrow> app_state
     \<Rightarrow> (http_error + (string \<times> json) list \<times> string option) \<times> app_state" where
  "get_login_status token channel_id st =
     (case login_sessions st channel_id of
        None \<Rightarrow> (Inl (HTTPException 404 MSG_NO_SESSION), st)
      | Some ref \<Rightarrow>
          let session = objects st ref;
              result0 = [(''status'', JStr (status session))]
          in if status session = ''success'' then
               let uid = db_user_id session;
                   result1 = (case result session of
                                None \<Rightarrow> result0
                              | Some r \<Rightarrow>
                                  dict_set (dict_set result0 ''user_id'' (json_of_int_option uid))
                                    ''wps_uid'' (json_of_int_option (lr_user_id r)));
                   logged_in = (case uid of None \<Rightarrow> False | Some n \<Rightarrow> n \<noteq> 0);
                   st1 = (if logged_in then create_session token ''user'' uid st else st);
                   st2 = st1\<lparr>objects := (objects st1)(ref := close session)\<rparr>;
                   st3 = st2\<lparr>login_sessions := (login_sessions st2)(channel_id := None)\<rparr>
               in (Inr (result1, if logged_in then Some token else None), st3)
             else if status session = ''failed'' then
               let result1 = dict_set result0 ''error'' (json_of_string_option (error session));
                   st2 = st\<lparr>objects := (objects st)(ref := close session)\<rparr>;
                   st3 = st2\<lparr>login_sessions := (login_sessions st2)(channel_id := None)\<rparr>
               in (Inr (result1, None), st3)
             else (Inr (result0, None), st))"

text \<open>A run of status polls, each with its token and channel id; the replies are dropped.\<close>

fun polls :: "(string \<times> string) list \<Rightarrow> app_state \<Rightarrow> app_state" where
  "polls [] st = st"
| "polls ((token, channel_id) # rest) st = polls rest (snd (get_login_status token channel_id st))"

text \<open>\<open>Database.add_user\<close>: the row with this \<open>wps_uid\<close> is updated, or a new row inserted.\<close>

definition add_user :: "env \<Rightarrow> int \<Rightarrow> json \<Rightarrow> string \<Rightarrow> world \<Rightarrow> int \<times> world" where
  "add_user e uid cookies_in nick w =
     (let cookies_json = json_dumps e cookies_in
      in case find (\<lambda>u. wps_uid u = uid) (users w) of
           Some existing \<Rightarrow>
             (user_id existing,
              w\<lparr>users := map (\<lambda>u. if wps_uid u = uid
                                   then u\<lparr>cookies := cookies_json, nickname := nick\<rparr> else u)
                            (users w)\<rparr>)
         | None \<Rightarrow>
             (users_seq w + 1,
              w\<lparr>users := users w @
                   [\<lparr>user_id = users_seq w + 1, wps_uid = uid, nickname = nick,
                     cookies = cookies_json, input_name = [], latitude = 100.1,
                     longitude = 100.1, is_active = True, created_at = timestamp e,
                     last_checkin = None, sendkey = Some [], checkin_hour = None,
                     checkin_minute = None\<rparr>],
                 users_seq := users_seq w + 1\<rparr>))"

text \<open>
  \<open>wait_for_scan_task\<close> runs beside the request handlers and gives way to them at its
  \<open>await\<close>s, so it is modelled by the pieces between them, each on the session object
  \<open>ref\<close> that the task looked up when it started:
  \<^item> \<open>scan_task_login_done\<close>: \<open>wait_for_login\<close> has returned \<open>r\<close>; the rest of
    \<open>wait_and_login\<close> runs, and on success the task calls \<open>db.add_user\<close> and waits
    for the database;
  \<^item> \<open>scan_task_user_added\<close>: the database has answered; the row is written and its
    id stored in \<open>session.db_user_id\<close>;
  \<^item> \<open>scan_task_failed\<close>: the \<open>except\<close> branch, for an exception with text \<open>err\<close>.
\<close>

definition scan_task_login_done :: "nat \<Rightarrow> login_result \<Rightarrow> app_state \<Rightarrow> app_state" where
  "scan_task_login_done ref r st = st\<lparr>objects := (objects st)(ref := wait_and_login r (objects st ref))\<rparr>"

definition scan_task_user_added :: "env \<Rightarrow> nat \<Rightarrow> login_result \<Rightarrow> app_state \<Rightarrow> app_state" where
  "scan_task_user_added e ref r st =
     (let (uid, w) = add_user e (case lr_user_id r of None \<Rightarrow> 0 | Some n \<Rightarrow> n)
                       (case lr_cookies r of None \<Rightarrow> JNull | Some c \<Rightarrow> JDict c)
                       (case lr_user_id r of
                          None \<Rightarrow> NICK_NEW
                        | Some n \<Rightarrow> if n \<noteq> 0 then NICK_PREFIX @ str_int n else NICK_NEW)
                       (store st)
      in st\<lparr>store := w, objects := (objects st)(ref := (objects st ref)\<lparr>db_user_id := Some uid\<rparr>)\<rparr>)"

definition scan_task_failed :: "nat \<Rightarrow> string \<Rightarrow> app_state \<Rightarrow> app_state" where
  "scan_task_failed ref err st =
     st\<lparr>objects := (objects st)(ref := (objects st ref)\<lparr>status := ''failed'', error := Some err\<rparr>)\<rparr>"

text \<open>The whole task when nothing runs in between and nothing raises.\<close>

definition wait_for_scan_task :: "env \<Rightarrow> string \<Rightarrow> login_result \<Rightarrow> app_state \<Rightarrow> app_state" where
  "wait_for_scan_task e channel_id r st =
     (case login_sessions st channel_id of
        None \<Rightarrow> st
      | Some ref \<Rightarrow>
          let st1 = scan_task_login_done ref r st
          in if lr_success r then scan_task_user_added e ref r st1 else st1)"


section \<open>Schedule triggers (database.py)\<close>

definition MSG_HOUR_RANGE :: string where
  "MSG_HOUR_RANGE = [CHR 0xE5, CHR 0xB0, CHR 0x8F, CHR 0xE6, CHR 0x97, CHR 0xB6, CHR 0xE5,
     CHR 0xBF, CHR 0x85, CHR 0xE9, CHR 0xA1, CHR 0xBB, CHR 0xE5, CHR 0x9C, CHR 0xA8] @ '' 0-23 ''
     @ [CHR 0xE4, CHR 0xB9, CHR 0x8B, CHR 0xE9, CHR 0x97, CHR 0xB4]"

definition MSG_MINUTE_RANGE :: string where
  "MSG_MINUTE_RANGE = [CHR 0xE5, CHR 0x88, CHR 0x86, CHR 0xE9, CHR 0x92, CHR 0x9F, CHR 0xE5,
     CHR 0xBF, CHR 0x85, CHR 0xE9, CHR 0xA1, CHR 0xBB, CHR 0xE5, CHR 0x9C, CHR 0xA8] @ '' 0-59 ''
     @ [CHR 0xE4, CHR 0xB9, CHR 0x8B, CHR 0xE9, CHR 0x97, CHR 0xB4]"

text \<open>The dataclass \<open>ScheduleConfig\<close>, a row of the table \<open>schedule_configs\<close>.\<close>

record schedule_config =
  sc_id :: int
  sc_name :: string
  sc_hour :: int
  sc_minute :: int
  sc_is_enabled :: bool
  sc_created_at :: string

record schedule_db =
  schedule_configs :: "schedule_config list"
  schedule_configs_seq :: int

text \<open>
  The keyword arguments of \<open>update_schedule\<close>: the fields of \<open>ScheduleUpdate\<close> that
  the request gave; \<open>None\<close> is a key that is not in \<open>kwargs\<close>.
\<close>

record schedule_kwargs =
  kw_name :: "string option"
  kw_hour :: "int option"
  kw_minute :: "int option"
  kw_is_enabled :: "bool option"

definition add_schedule ::
  "string \<Rightarrow> string \<Rightarrow> int \<Rightarrow> int \<Rightarrow> schedule_db \<Rightarrow> (py_error + int) \<times> schedule_db" where
  "add_schedule now name h m db =
     (if \<not> (0 \<le> h \<and> h \<le> 23) then (Inl (ValueError MSG_HOUR_RANGE), db)
      else if \<not> (0 \<le> m \<and> m \<le> 59) then (Inl (ValueError MSG_MINUTE_RANGE), db)
      else
        (Inr (schedule_configs_seq db + 1),
         db\<lparr>schedule_configs := schedule_configs db @
               [\<lparr>sc_id = schedule_configs_seq db + 1, sc_name = name, sc_hour = h,
                 sc_minute = m, sc_is_enabled = True, sc_created_at = now\<rparr>],
            schedule_configs_seq := schedule_configs_seq db + 1\<rparr>))"

definition apply_kwargs :: "schedule_kwargs \<Rightarrow> schedule_config \<Rightarrow> schedule_config" where
  "apply_kwargs kw c =
     c\<lparr>sc_name := (case kw_name kw of None \<Rightarrow> sc_name c | Some x \<Rightarrow> x),
       sc_hour := (case kw_hour kw of None \<Rightarrow> sc_hour c | Some x \<Rightarrow> x),
       sc_minute := (case kw_minute kw of None \<Rightarrow> sc_minute c | Some x \<Rightarrow> x),
       sc_is_enabled := (case kw_is_enabled kw of None \<Rightarrow> sc_is_enabled c | Some x \<Rightarrow> x)\<rparr>"

definition update_schedule ::
  "int \<Rightarrow> schedule_kwargs \<Rightarrow> schedule_db \<Rightarrow> (py_error + bool) \<times> schedule_db" where
  "update_schedule schedule_id kw db =
     (if kw_name kw = None \<and> kw_hour kw = None \<and> kw_minute kw = None \<and> kw_is_enabled kw = None
      then (Inr False, db)
      else if (case kw_hour kw of None \<Rightarrow> False | Some h \<Rightarrow> \<not> (0 \<le> h \<and> h \<le> 23))
      then (Inl (ValueError MSG_HOUR_RANGE), db)
      else if (case kw_minute kw of None \<Rightarrow> False | Some m \<Rightarrow> \<not> (0 \<le> m \<and> m \<le> 59))
      then (Inl (ValueError MSG_MINUTE_RANGE), db)
      else
        (Inr True,
         db\<lparr>schedule_configs :=
              map (\<lambda>c. if sc_id c = schedule_id then apply_kwargs kw c else c)
                  (schedule_configs db)\<rparr>))"

text \<open>\<open>get_enabled_schedules\<close>: the enabled rows, ordered by hour and minute.\<close>

definition get_enabled_schedules :: "schedule_db \<Rightarrow> schedule_config list" where
  "get_enabled_schedules db =
     sort_key (\<lambda>c. (sc_hour c, sc_minute c)) (filter sc_is_enabled (schedule_configs db))"


section \<open>The scheduler (scheduler.py)\<close>

text \<open>
  A job of the scheduler: its id, its name, the hour and minute of its cron trigger and
  the function it runs.  The scheduler's job store is the list that \<open>get_jobs\<close>
  returns; \<open>remove_job\<close> takes the job with an id out, and \<open>add_job\<close> with
  \<open>replace_existing=True\<close> puts a job in the place of one with the same id, or adds it.
\<close>

record job =
  job_id :: string
  job_name :: string
  job_trigger :: "int \<times> int"
  job_func :: string

definition remove_job :: "string \<Rightarrow> job list \<Rightarrow> job list" where
  "remove_job i js = filter (\<lambda>j. job_id j \<noteq> i) js"

definition add_job :: "job \<Rightarrow> job list \<Rightarrow> job list" where
  "add_job j js =
     (if list_ex (\<lambda>x. job_id x = job_id j) js
      then map (\<lambda>x. if job_id x = job_id j then j else x) js
      else js @ [j])"

definition startswith :: "string \<Rightarrow> string \<Rightarrow> bool" where
  "startswith s p = (take (length p) s = p)"

definition checkin_job :: "schedule_config \<Rightarrow> job" where
  "checkin_job c =
     \<lparr>job_id = ''checkin_'' @ str_int (sc_id c), job_name = sc_name c,
       job_trigger = (sc_hour c, sc_minute c), job_func = ''do_checkin_all''\<rparr>"

text \<open>
  \<open>setup_scheduler_from_db\<close>: the first loop removes every job whose id starts with
  \<open>checkin_\<close>, the second adds one job for each enabled row.
\<close>

definition setup_scheduler_from_db :: "schedule_db \<Rightarrow> job list \<Rightarrow> job list" where
  "setup_scheduler_from_db db js =
     (let js1 = fold (\<lambda>j acc. if startswith (job_id j) ''checkin_''
                                then remove_job (job_id j) acc else acc) js js;
          schedules = get_enabled_schedules db
      in fold (\<lambda>c acc. add_job (checkin_job c) acc) schedules js1)"


section \<open>Example data\<close>

definition demo_user :: "int \<Rightarrow> string \<Rightarrow> user" where
  "demo_user i c =
     \<lparr>user_id = i, wps_uid = 1000 + i, nickname = ''amy'', cookies = c,
       input_name = ''1000&amy'', latitude = 100, longitude = 100, is_active = True,
       created_at = ''2024-01-01 00:00:00'', last_checkin = None, sendkey = Some ''SCT1'',
       checkin_hour = None, checkin_minute = None\<rparr>"

definition demo_world :: world where
  "demo_world =
     \<lparr>users = [demo_user 1 ''{}'', demo_user 2 ''{oops''], users_seq = 2, checkin_logs = [],
       checkin_logs_seq = 0, submissions = [], notifications = [], http_requests = [],
       sleeps = []\<rparr>"

definition demo_env :: "bool \<Rightarrow> env" where
  "demo_env ok =
     \<lparr>json_loads = (\<lambda>s. if s = ''{}'' then Some (JDict []) else None),
       json_dumps = (\<lambda>j. if j = JDict [] then ''{}'' else ''{...}''),
       submit_outcome = (\<lambda>i. Returned ok (if ok then [] else ''timeout'')),
       timestamp = ''2024-01-02 19:00:00''\<rparr>"


definition demo_str_of :: "json \<Rightarrow> string" where
  "demo_str_of j = (case j of JStr t \<Rightarrow> t | _ \<Rightarrow> [])"

definition demo_token :: "string \<Rightarrow> token" where
  "demo_token d = \<lparr>tok_name = ''rtk'', tok_value = ''abc'', tok_domain = d, tok_path = ''/''\<rparr>"

definition demo_int_of :: "string \<Rightarrow> int option" where
  "demo_int_of t = (if t = ''1001'' then Some 1001 else None)"

definition demo_cookie :: "string \<Rightarrow> string \<Rightarrow> browser_cookie" where
  "demo_cookie n v = \<lparr>bc_name = n, bc_value = v, bc_domain = Some ''.wps.cn'', bc_path = Some ''/''\<rparr>"

definition demo_schedule_db :: schedule_db where
  "demo_schedule_db =
     \<lparr>schedule_configs =
        [\<lparr>sc_id = 1, sc_name = ''evening'', sc_hour = 19, sc_minute = 0, sc_is_enabled = True,
          sc_created_at = ''2024-01-01 00:00:00''\<rparr>,
         \<lparr>sc_id = 2, sc_name = ''morning'', sc_hour = 8, sc_minute = 30, sc_is_enabled = True,
          sc_created_at = ''2024-01-01 00:00:00''\<rparr>,
         \<lparr>sc_id = 3, sc_name = ''noon'', sc_hour = 12, sc_minute = 0, sc_is_enabled = False,
          sc_created_at = ''2024-01-01 00:00:00''\<rparr>],
       schedule_configs_seq = 3\<rparr>"

definition demo_kwargs :: "int option \<Rightarrow> int option \<Rightarrow> schedule_kwargs" where
  "demo_kwargs h m = \<lparr>kw_name = None, kw_hour = h, kw_minute = m, kw_is_enabled = None\<rparr>"

definition demo_session :: "string \<Rightarrow> session" where
  "demo_session st =
     \<lparr>qrcode = Some (''ch_1'', ''https://qrcode.example/ch_1''), status = st, result = None,
       error = None, db_user_id = None, close_calls = 0\<rparr>"

definition demo_app :: "string \<Rightarrow> app_state" where
  "demo_app st =
     \<lparr>objects = (\<lambda>_. demo_session st), login_sessions = [''ch_1'' \<mapsto> 0], sessions = [],
       store = demo_world\<rparr>"

definition demo_login :: login_result where
  "demo_login =
     wait_for_login demo_int_of True (Inr [demo_cookie ''rtk'' ''abc'', demo_cookie ''uid'' ''1001''])"

definition demo_jobs :: "job list" where
  "demo_jobs =
     [\<lparr>job_id = ''checkin_9'', job_name = ''stale'', job_trigger = (7, 0),
       job_func = ''do_checkin_all''\<rparr>,
      \<lparr>job_id = ''backup'', job_name = ''backup'', job_trigger = (3, 0), job_func = ''backup''\<rparr>]"

definition demo_err_text :: "py_error \<Rightarrow> string" where
  "demo_err_text err =
     (case err of
        AttributeError \<Rightarrow>
          [CHR 0x27] @ ''NoneType'' @ [CHR 0x27] @ '' object has no attribute ''
            @ [CHR 0x27] @ ''items'' @ [CHR 0x27]
      | ValueError t \<Rightarrow> t)"

definition demo_env_null :: env where
  "demo_env_null =
     \<lparr>json_loads = (\<lambda>s. if s = ''null'' then Some JNull else None),
       json_dumps = (\<lambda>j. if j = JNull then ''null'' else ''{...}''),
       submit_outcome =
         (\<lambda>i. execute_checkin_result demo_str_of demo_err_text JNull (Returned True [])),
       timestamp = ''2024-01-02 19:00:00''\<rparr>"

definition demo_world_blobs :: world where
  "demo_world_blobs =
     \<lparr>users = [demo_user 3 ''null'', (demo_user 4 [])\<lparr>sendkey := None\<rparr>], users_seq = 4,
       checkin_logs = [], checkin_logs_seq = 0, submissions = [], notifications = [],
       http_requests = [], sleeps = []\<rparr>"


section \<open>The check-in of one account\<close>


lemma attempts_loop_all_fail:
  assumes "\<forall>i. submit_outcome e i = Returned False (msg i)"
  shows "attempts_loop e uid u cj a n le w =
     (Some (if a < n then Some (msg (length (submissions w) + (n - a) - 1)) else le),
      w\<lparr>submissions := submissions w @ replicate (n - a)
            \<lparr>sub_cookies = cj, sub_input_name = input_name u, sub_latitude = latitude u,
              sub_longitude = longitude u\<rparr>,
        sleeps := sleeps w @ replicate (n - a - (if a = 0 then 1 else 0)) 60\<rparr>)"
  using assms
proof (induction e uid u cj a n le w rule: attempts_loop.induct)
  case (1 e uid u cj attempt n last_error w)
  show ?case
  proof (cases "attempt < n")
    case False
    then show ?thesis by (simp add: attempts_loop.simps)
  next
    case True
    define s where "s = \<lparr>sub_cookies = cj, sub_input_name = input_name u, sub_latitude = latitude u,
              sub_longitude = longitude u\<rparr>"
    define w1 where "w1 = (if attempt > 0 then w\<lparr>sleeps := sleeps w @ [60]\<rparr> else w)"
    define w2 where "w2 = w1\<lparr>submissions := submissions w1 @ [s]\<rparr>"
    have ex: "execute_checkin e cj (input_name u) (latitude u) (longitude u) w1
              = (Returned False (msg (length (submissions w))), w2)"
      by (simp add: execute_checkin_def "1.prems" w1_def w2_def s_def)
    have step: "attempts_loop e uid u cj attempt n last_error w
              = attempts_loop e uid u cj (attempt + 1) n (Some (msg (length (submissions w)))) w2"
      using True ex by (subst attempts_loop.simps) (simp add: w1_def [symmetric])
    have ih: "attempts_loop e uid u cj (attempt + 1) n (Some (msg (length (submissions w)))) w2 =
      (Some (if attempt + 1 < n then Some (msg (length (submissions w2) + (n - (attempt + 1)) - 1))
             else Some (msg (length (submissions w)))),
       w2\<lparr>submissions := submissions w2 @ replicate (n - (attempt + 1)) s,
          sleeps := sleeps w2 @ replicate (n - (attempt + 1) - (if attempt + 1 = 0 then 1 else 0)) 60\<rparr>)"
      using "1.IH"(1) [OF True w1_def refl ex [symmetric] refl _ "1.prems"] by (simp add: s_def)
    obtain k where k: "n - attempt = Suc k"
      using True by (cases "n - attempt") auto
    have k1: "n - (attempt + 1) = k" and k2: "(attempt + 1 < n) = (0 < k)"
      using k by auto
    have len: "length (submissions w2) = Suc (length (submissions w))"
      by (simp add: w2_def w1_def)
    have val: "(if 0 < k then Some (msg (length (submissions w2) + k - 1))
                else Some (msg (length (submissions w))))
               = Some (msg (length (submissions w) + Suc k - 1))"
      by (cases k) (simp_all add: len)
    have wld: "w2\<lparr>submissions := submissions w2 @ replicate k s,
                  sleeps := sleeps w2 @ replicate (k - (if attempt + 1 = 0 then 1 else 0)) 60\<rparr>
             = w\<lparr>submissions := submissions w @ replicate (Suc k) s,
                  sleeps := sleeps w @ replicate (Suc k - (if attempt = 0 then 1 else 0)) 60\<rparr>"
      by (cases "attempt = 0") (simp_all add: w2_def w1_def replicate_append_same)
    show ?thesis
      unfolding step ih k1 k2 val wld using True by (simp add: k s_def)
  qed
qed

lemma get_user_update_last_checkin:
  "get_user uid (update_last_checkin e uid w)
     = map_option (\<lambda>u. u\<lparr>last_checkin := Some (timestamp e)\<rparr>) (get_user uid w)"
proof -
  have "find (\<lambda>u. user_id u = uid)
          (map (\<lambda>u. if user_id u = uid then u\<lparr>last_checkin := Some (timestamp e)\<rparr> else u) us)
        = map_option (\<lambda>u. u\<lparr>last_checkin := Some (timestamp e)\<rparr>)
            (find (\<lambda>u. user_id u = uid) us)" for us
    by (induction us) auto
  then show ?thesis
    by (simp add: get_user_def update_last_checkin_def)
qed

lemma send_user_notification_fields:
  "notifications (send_user_notification u b m w)
     = notifications w @ [\<lparr>ntf_user = u, ntf_success = b, ntf_message = m\<rparr>]"
  "users (send_user_notification u b m w) = users w"
  "checkin_logs (send_user_notification u b m w) = checkin_logs w"
  "checkin_logs_seq (send_user_notification u b m w) = checkin_logs_seq w"
  "submissions (send_user_notification u b m w) = submissions w"
  "sleeps (send_user_notification u b m w) = sleeps w"
  by (simp_all add: send_user_notification_def Let_def split: option.splits)

lemma send_user_notification_requests:
  "length (http_requests (send_user_notification u b m w))
     = length (http_requests w) + (if sendkey u = None \<or> sendkey u = Some [] then 0 else 1)"
  by (simp add: send_user_notification_def Let_def split: option.splits)

lemma add_checkin_log_fields:
  "checkin_logs (add_checkin_log e uid st m w)
     = checkin_logs w @ [\<lparr>log_id = checkin_logs_seq w + 1, log_user_id = uid, log_status = st,
                          log_message = m, log_created_at = timestamp e\<rparr>]"
  "users (add_checkin_log e uid st m w) = users w"
  "notifications (add_checkin_log e uid st m w) = notifications w"
  "http_requests (add_checkin_log e uid st m w) = http_requests w"
  "submissions (add_checkin_log e uid st m w) = submissions w"
  "sleeps (add_checkin_log e uid st m w) = sleeps w"
  by (simp_all add: add_checkin_log_def)

lemma update_last_checkin_fields:
  "checkin_logs (update_last_checkin e uid w) = checkin_logs w"
  "checkin_logs_seq (update_last_checkin e uid w) = checkin_logs_seq w"
  "notifications (update_last_checkin e uid w) = notifications w"
  "http_requests (update_last_checkin e uid w) = http_requests w"
  "submissions (update_last_checkin e uid w) = submissions w"
  "sleeps (update_last_checkin e uid w) = sleeps w"
  by (simp_all add: update_last_checkin_def)

text \<open>
  C10: for an account id with no account record, \<open>do_checkin_for_user\<close> returns failure
  and leaves the whole state as it was: no CheckinRecord is written and the notification
  function is not called (nor is anything submitted or slept).
\<close>

theorem unknown_account_untouched:
  "get_user uid w = None \<Longrightarrow> do_checkin_for_user e uid max_retries w = (False, w)"
  by (simp add: do_checkin_for_user_def)

theorem unknown_account_untouched_witness:
  "get_user 7 demo_world = None
   \<and> do_checkin_for_user (demo_env True) 7 2 demo_world = (False, demo_world)"
proof -
  have h: "get_user 7 demo_world = None"
    by (simp add: get_user_def demo_world_def demo_user_def)
  from unknown_account_untouched [OF h] h show ?thesis
    by blast
qed

text \<open>
  C3, as amended: for an account whose credential blob is empty, or whose check-in
  content is empty, or whose credential blob \<open>json.loads\<close> rejects,
  \<open>do_checkin_for_user\<close> returns failure without calling the form submitter and without
  sleeping for a retry; it appends exactly one \<open>failed\<close> record to the history and
  calls the notification function exactly once, with \<open>success = False\<close> and the same
  message as the record.  The notification function issues one HTTP request for a user
  with a SendKey, and none for a user without.
\<close>

theorem fail_fast_one_failed_record:
  assumes "get_user uid w = Some u"
    and "cookies u = [] \<or> input_name u = [] \<or> json_loads e (cookies u) = None"
  shows "case do_checkin_for_user e uid max_retries w of (r, w') \<Rightarrow>
           \<not> r \<and> submissions w' = submissions w \<and> sleeps w' = sleeps w \<and> users w' = users w
         \<and> checkin_logs w' = checkin_logs w @
               [\<lparr>log_id = checkin_logs_seq w + 1, log_user_id = uid, log_status = ''failed'',
                 log_message = (if cookies u = [] then MSG_NO_CREDENTIAL
                                else if input_name u = [] then MSG_NO_CONTENT else MSG_BAD_COOKIE),
                 log_created_at = timestamp e\<rparr>]
         \<and> notifications w' = notifications w @
               [\<lparr>ntf_user = u, ntf_success = False,
                 ntf_message = (if cookies u = [] then MSG_NO_CREDENTIAL
                                else if input_name u = [] then MSG_NO_CONTENT else MSG_BAD_COOKIE)\<rparr>]
         \<and> length (http_requests w')
             = length (http_requests w) + (if sendkey u = None \<or> sendkey u = Some [] then 0 else 1)"
  using assms
  by (auto simp: do_checkin_for_user_def send_user_notification_fields add_checkin_log_fields
        send_user_notification_requests)

theorem fail_fast_one_failed_record_witness:
  "get_user 2 demo_world = Some (demo_user 2 ''{oops'')
   \<and> json_loads (demo_env True) (cookies (demo_user 2 ''{oops'')) = None
   \<and> (case do_checkin_for_user (demo_env True) 2 2 demo_world of (r, w') \<Rightarrow>
           \<not> r \<and> submissions w' = [] \<and> sleeps w' = [] \<and> users w' = users demo_world
         \<and> checkin_logs w' =
               [\<lparr>log_id = 1, log_user_id = 2, log_status = ''failed'',
                 log_message = MSG_BAD_COOKIE, log_created_at = ''2024-01-02 19:00:00''\<rparr>]
         \<and> notifications w' =
               [\<lparr>ntf_user = demo_user 2 ''{oops'', ntf_success = False,
                 ntf_message = MSG_BAD_COOKIE\<rparr>]
         \<and> length (http_requests w') = 1)"
proof -
  have h1: "get_user 2 demo_world = Some (demo_user 2 ''{oops'')"
    by (simp add: get_user_def demo_world_def demo_user_def)
  have h2: "json_loads (demo_env True) (cookies (demo_user 2 ''{oops'')) = None"
    by (simp add: demo_env_def demo_user_def)
  have h3: "cookies (demo_user 2 ''{oops'') \<noteq> []" "input_name (demo_user 2 ''{oops'') \<noteq> []"
    by (simp_all add: demo_user_def)
  have h4: "submissions demo_world = []" "sleeps demo_world = []" "checkin_logs demo_world = []"
    "notifications demo_world = []" "checkin_logs_seq demo_world = 0"
    "timestamp (demo_env True) = ''2024-01-02 19:00:00''" "http_requests demo_world = []"
    "sendkey (demo_user 2 ''{oops'') = Some ''SCT1''"
    by (simp_all add: demo_world_def demo_env_def demo_user_def)
  from fail_fast_one_failed_record [OF h1 disjI2 [OF disjI2 [OF h2]], of 2] h1 h2 show ?thesis
    by (simp add: h3 h4 split: prod.splits)
qed

text \<open>
  C3 as stated fails in two places.  The blob \<open>null\<close> is valid JSON but neither a
  mapping nor a sequence of tokens: \<open>json.loads\<close> accepts it, the conversion of the
  cookies inside the form submitter raises, the submitter returns \<open>(False, text)\<close>, and
  the check-in is retried: three submissions and two sleeps for \<open>max_retries = 2\<close>.
  And for an account without SendKey the one call of the notification function sends
  nothing.
\<close>


theorem non_mapping_blob_is_retried:
  "json_loads demo_env_null (cookies (demo_user 3 ''null'')) = Some JNull
   \<and> convert_cookies_to_playwright demo_str_of JNull = Inl AttributeError
   \<and> fst (do_checkin_for_user demo_env_null 3 2 demo_world_blobs) = False
   \<and> length (submissions (snd (do_checkin_for_user demo_env_null 3 2 demo_world_blobs))) = 3
   \<and> sleeps (snd (do_checkin_for_user demo_env_null 3 2 demo_world_blobs)) = [60, 60]
   \<and> fst (do_checkin_for_user demo_env_null 4 2 demo_world_blobs) = False
   \<and> length (notifications (snd (do_checkin_for_user demo_env_null 4 2 demo_world_blobs))) = 1
   \<and> http_requests (snd (do_checkin_for_user demo_env_null 4 2 demo_world_blobs)) = []"
proof -
  have u3: "get_user 3 demo_world_blobs = Some (demo_user 3 ''null'')"
    and u4: "get_user 4 demo_world_blobs = Some ((demo_user 4 [])\<lparr>sendkey := None\<rparr>)"
    by (simp_all add: get_user_def demo_world_blobs_def demo_user_def)
  have j: "json_loads demo_env_null (cookies (demo_user 3 ''null'')) = Some JNull"
    by (simp add: demo_env_null_def demo_user_def)
  have c: "convert_cookies_to_playwright demo_str_of JNull = Inl AttributeError"
    by (simp add: convert_cookies_to_playwright_def)
  have o: "\<forall>i. submit_outcome demo_env_null i
             = Returned False ((\<lambda>_. demo_err_text AttributeError) i)"
    by (simp add: demo_env_null_def execute_checkin_result_def c)
  have f: "cookies (demo_user 3 ''null'') \<noteq> []" "input_name (demo_user 3 ''null'') \<noteq> []"
    by (simp_all add: demo_user_def)
  have d: "submissions demo_world_blobs = []" "sleeps demo_world_blobs = []"
    "notifications demo_world_blobs = []" "http_requests demo_world_blobs = []"
    by (simp_all add: demo_world_blobs_def)
  have r3: "do_checkin_for_user demo_env_null 3 2 demo_world_blobs
      = (False,
         send_user_notification (demo_user 3 ''null'') False
           (MSG_RETRY_PREFIX @ str_int 2 @ MSG_RETRY_SUFFIX @ demo_err_text AttributeError)
           (add_checkin_log demo_env_null 3 ''failed''
              (MSG_RETRY_PREFIX @ str_int 2 @ MSG_RETRY_SUFFIX @ demo_err_text AttributeError)
              (demo_world_blobs
                 \<lparr>submissions := submissions demo_world_blobs @ replicate 3
                      \<lparr>sub_cookies = JNull, sub_input_name = input_name (demo_user 3 ''null''),
                        sub_latitude = latitude (demo_user 3 ''null''),
                        sub_longitude = longitude (demo_user 3 ''null'')\<rparr>,
                   sleeps := sleeps demo_world_blobs @ replicate 2 60\<rparr>)))"
    by (simp add: do_checkin_for_user_def u3 f j attempts_loop_all_fail [OF o] Let_def)
  have r4: "do_checkin_for_user demo_env_null 4 2 demo_world_blobs
      = (False,
         send_user_notification ((demo_user 4 [])\<lparr>sendkey := None\<rparr>) False MSG_NO_CREDENTIAL
           (add_checkin_log demo_env_null 4 ''failed'' MSG_NO_CREDENTIAL demo_world_blobs))"
    by (simp add: do_checkin_for_user_def u4 demo_user_def)
  have 1: "length (submissions (snd (do_checkin_for_user demo_env_null 3 2 demo_world_blobs))) = 3"
    and 2: "sleeps (snd (do_checkin_for_user demo_env_null 3 2 demo_world_blobs)) = [60, 60]"
    by (simp_all add: r3 send_user_notification_fields add_checkin_log_fields d numeral_eq_Suc)
  have 3: "length (notifications (snd (do_checkin_for_user demo_env_null 4 2 demo_world_blobs))) = 1"
    by (simp add: r4 send_user_notification_fields add_checkin_log_fields d)
  have 4: "http_requests (snd (do_checkin_for_user demo_env_null 4 2 demo_world_blobs)) = []"
    by (simp add: r4 send_user_notification_def add_checkin_log_fields d Let_def)
  from j c 1 2 3 4 show ?thesis
    by (simp add: r3 r4)
qed

text \<open>
  C4: for an account with a non-empty, parseable credential blob and non-empty content,
  when the first call of the form submitter returns \<open>(True, message)\<close>,
  \<open>do_checkin_for_user\<close> (with \<open>max_retries \<ge> 0\<close>, the default being 2) returns
  success after exactly one submission and no sleep; it appends exactly one \<open>success\<close>
  record, sets the account's last check-in time, and calls the notification function
  exactly once with \<open>success = True\<close>.
\<close>

theorem first_attempt_success:
  assumes "get_user uid w = Some u" and "cookies u \<noteq> []" and "input_name u \<noteq> []"
    and "json_loads e (cookies u) = Some cj"
    and "submit_outcome e (length (submissions w)) = Returned True message"
    and "0 \<le> max_retries"
  shows "case do_checkin_for_user e uid max_retries w of (r, w') \<Rightarrow>
           r
         \<and> submissions w' = submissions w @
               [\<lparr>sub_cookies = cj, sub_input_name = input_name u, sub_latitude = latitude u,
                 sub_longitude = longitude u\<rparr>]
         \<and> sleeps w' = sleeps w
         \<and> checkin_logs w' = checkin_logs w @
               [\<lparr>log_id = checkin_logs_seq w + 1, log_user_id = uid, log_status = ''success'',
                 log_message = (if message \<noteq> [] then message else MSG_CHECKIN_OK),
                 log_created_at = timestamp e\<rparr>]
         \<and> get_user uid w' = Some (u\<lparr>last_checkin := Some (timestamp e)\<rparr>)
         \<and> notifications w' = notifications w @
               [\<lparr>ntf_user = u, ntf_success = True,
                 ntf_message = (if message \<noteq> [] then message else MSG_CHECKIN_OK)\<rparr>]"
proof -
  have n: "0 < nat (max_retries + 1)"
    using assms(6) by simp
  have ex: "execute_checkin e cj (input_name u) (latitude u) (longitude u) w
          = (Returned True message,
             w\<lparr>submissions := submissions w @
               [\<lparr>sub_cookies = cj, sub_input_name = input_name u, sub_latitude = latitude u,
                 sub_longitude = longitude u\<rparr>]\<rparr>)"
    by (simp add: execute_checkin_def assms(5))
  have gu: "get_user uid (w\<lparr>submissions := ss\<rparr>) = get_user uid w" for ss
    by (simp add: get_user_def)
  have gl: "get_user uid (add_checkin_log e uid st m w0) = get_user uid w0" for st m w0
    by (simp add: get_user_def add_checkin_log_fields)
  have gn: "get_user uid (send_user_notification u b m w0) = get_user uid w0" for b m w0
    by (simp add: get_user_def send_user_notification_fields)
  show ?thesis
    using assms(1-4) n
    by (subst do_checkin_for_user_def, subst attempts_loop.simps)
       (simp add: ex Let_def send_user_notification_fields add_checkin_log_fields
          get_user_update_last_checkin gu gl gn update_last_checkin_fields)
qed

theorem first_attempt_success_witness:
  "get_user 1 demo_world = Some (demo_user 1 ''{}'')
   \<and> cookies (demo_user 1 ''{}'') \<noteq> [] \<and> input_name (demo_user 1 ''{}'') \<noteq> []
   \<and> json_loads (demo_env True) (cookies (demo_user 1 ''{}'')) = Some (JDict [])
   \<and> submit_outcome (demo_env True) (length (submissions demo_world)) = Returned True []
   \<and> (0::int) \<le> 2
   \<and> (case do_checkin_for_user (demo_env True) 1 2 demo_world of (r, w') \<Rightarrow>
           r \<and> length (submissions w') = 1 \<and> sleeps w' = []
         \<and> checkin_logs w' =
               [\<lparr>log_id = 1, log_user_id = 1, log_status = ''success'',
                 log_message = MSG_CHECKIN_OK, log_created_at = ''2024-01-02 19:00:00''\<rparr>]
         \<and> get_user 1 w' =
               Some (demo_user 1 ''{}''\<lparr>last_checkin := Some ''2024-01-02 19:00:00''\<rparr>)
         \<and> notifications w' =
               [\<lparr>ntf_user = demo_user 1 ''{}'', ntf_success = True,
                 ntf_message = MSG_CHECKIN_OK\<rparr>])"
proof -
  have h1: "get_user 1 demo_world = Some (demo_user 1 ''{}'')"
    by (simp add: get_user_def demo_world_def demo_user_def)
  have h2: "cookies (demo_user 1 ''{}'') \<noteq> []" and h3: "input_name (demo_user 1 ''{}'') \<noteq> []"
    by (simp_all add: demo_user_def)
  have h4: "json_loads (demo_env True) (cookies (demo_user 1 ''{}'')) = Some (JDict [])"
    by (simp add: demo_env_def demo_user_def)
  have h5: "submit_outcome (demo_env True) (length (submissions demo_world)) = Returned True []"
    by (simp add: demo_env_def)
  have h6: "(0::int) \<le> 2"
    by simp
  have d: "submissions demo_world = []" "sleeps demo_world = []" "checkin_logs demo_world = []"
    "notifications demo_world = []" "checkin_logs_seq demo_world = 0"
    "timestamp (demo_env True) = ''2024-01-02 19:00:00''"
    by (simp_all add: demo_world_def demo_env_def)
  from first_attempt_success [OF h1 h2 h3 h4 h5 h6] h1 h2 h3 h4 h5 show ?thesis
    by (simp add: d split: prod.splits)
qed

text \<open>
  C1: for an account with a non-empty, parseable credential blob and non-empty content,
  when every call of the form submitter returns \<open>(False, msg)\<close>,
  \<open>do_checkin_for_user\<close> with \<open>max_retries \<ge> 0\<close> (the default being 2) makes exactly
  \<open>max_retries + 1\<close> submissions, sleeps 60 seconds before each but the first, appends
  exactly one \<open>failed\<close> record whose message is the retry count and the message of the
  last attempt inside the fixed text, calls the notification function once with that
  message, and returns failure.
\<close>

theorem always_failing_exhausts_retries:
  assumes "get_user uid w = Some u" and "cookies u \<noteq> []" and "input_name u \<noteq> []"
    and "json_loads e (cookies u) = Some cj"
    and "\<forall>i. submit_outcome e i = Returned False (msg i)"
    and "0 \<le> max_retries"
  shows "case do_checkin_for_user e uid max_retries w of (r, w') \<Rightarrow>
           \<not> r
         \<and> submissions w' = submissions w @ replicate (nat (max_retries + 1))
               \<lparr>sub_cookies = cj, sub_input_name = input_name u, sub_latitude = latitude u,
                 sub_longitude = longitude u\<rparr>
         \<and> sleeps w' = sleeps w @ replicate (nat max_retries) 60
         \<and> checkin_logs w' = checkin_logs w @
               [\<lparr>log_id = checkin_logs_seq w + 1, log_user_id = uid, log_status = ''failed'',
                 log_message = MSG_RETRY_PREFIX @ str_int max_retries @ MSG_RETRY_SUFFIX
                     @ msg (length (submissions w) + nat max_retries),
                 log_created_at = timestamp e\<rparr>]
         \<and> notifications w' = notifications w @
               [\<lparr>ntf_user = u, ntf_success = False,
                 ntf_message = MSG_RETRY_PREFIX @ str_int max_retries @ MSG_RETRY_SUFFIX
                     @ msg (length (submissions w) + nat max_retries)\<rparr>]
         \<and> users w' = users w"
proof -
  have n: "0 < nat (max_retries + 1)"
    and n1: "nat (max_retries + 1) - 1 = nat max_retries"
    and n2: "k + nat (max_retries + 1) - Suc 0 = k + nat max_retries" for k
    using assms(6) by simp_all
  show ?thesis
    using assms(1-4) n
    by (simp add: do_checkin_for_user_def attempts_loop_all_fail [OF assms(5)]
          send_user_notification_fields add_checkin_log_fields n1 n2 Let_def)
qed

theorem always_failing_exhausts_retries_witness:
  "get_user 1 demo_world = Some (demo_user 1 ''{}'')
   \<and> cookies (demo_user 1 ''{}'') \<noteq> [] \<and> input_name (demo_user 1 ''{}'') \<noteq> []
   \<and> json_loads (demo_env False) (cookies (demo_user 1 ''{}'')) = Some (JDict [])
   \<and> (\<forall>i. submit_outcome (demo_env False) i = Returned False ''timeout'')
   \<and> (0::int) \<le> 2
   \<and> (case do_checkin_for_user (demo_env False) 1 2 demo_world of (r, w') \<Rightarrow>
           \<not> r \<and> length (submissions w') = 3 \<and> sleeps w' = [60, 60]
         \<and> checkin_logs w' =
               [\<lparr>log_id = 1, log_user_id = 1, log_status = ''failed'',
                 log_message = MSG_RETRY_PREFIX @ ''2'' @ MSG_RETRY_SUFFIX @ ''timeout'',
                 log_created_at = ''2024-01-02 19:00:00''\<rparr>]
         \<and> length (notifications w') = 1)"
proof -
  have h1: "get_user 1 demo_world = Some (demo_user 1 ''{}'')"
    by (simp add: get_user_def demo_world_def demo_user_def)
  have h2: "cookies (demo_user 1 ''{}'') \<noteq> []" and h3: "input_name (demo_user 1 ''{}'') \<noteq> []"
    by (simp_all add: demo_user_def)
  have h4: "json_loads (demo_env False) (cookies (demo_user 1 ''{}'')) = Some (JDict [])"
    by (simp add: demo_env_def demo_user_def)
  have h5: "\<forall>i. submit_outcome (demo_env False) i = Returned False ((\<lambda>_. ''timeout'') i)"
    by (simp add: demo_env_def)
  have h6: "(0::int) \<le> 2"
    by simp
  have d: "submissions demo_world = []" "sleeps demo_world = []" "checkin_logs demo_world = []"
    "notifications demo_world = []" "checkin_logs_seq demo_world = 0"
    "timestamp (demo_env False) = ''2024-01-02 19:00:00''"
    by (simp_all add: demo_world_def demo_env_def)
  have s2: "str_int 2 = ''2''"
    by (simp add: str_int_def str_nat.simps digit_char_def)
  from always_failing_exhausts_retries [OF h1 h2 h3 h4 h5 h6] h1 h2 h3 h4 h5 show ?thesis
    by (simp add: d s2 numeral_eq_Suc split: prod.splits)
qed


section \<open>Credential blobs\<close>


lemma playwright_cookie_of_token:
  "playwright_cookie str_of (tok_name t)
     (JDict [(''value'', JStr (tok_value t)), (''domain'', JStr (tok_domain t)),
             (''path'', JStr (tok_path t))]) = token_record t"
  by (simp add: playwright_cookie_def token_record_def dict_get_def)

lemma kdocs_cookie_of_token:
  "kdocs_cookie (token_record t)
     = (if tok_domain t = ''.wps.cn'' then [token_record (t\<lparr>tok_domain := ''.kdocs.cn''\<rparr>)] else [])"
  by (simp add: kdocs_cookie_def token_record_def)

lemma kdocs_cookies_of_tokens:
  "concat (map kdocs_cookie (map token_record ts))
     = map (\<lambda>t. token_record (t\<lparr>tok_domain := ''.kdocs.cn''\<rparr>))
         (filter (\<lambda>t. tok_domain t = ''.wps.cn'') ts)"
  by (induction ts) (simp_all add: kdocs_cookie_of_token)

lemma convert_mapping_form:
  "convert_cookies_to_playwright str_of (spec_mapping_form ts)
     = Inr (map token_record ts
            @ map (\<lambda>t. token_record (t\<lparr>tok_domain := ''.kdocs.cn''\<rparr>))
                (filter (\<lambda>t. tok_domain t = ''.wps.cn'') ts))"
proof -
  have "map (\<lambda>(name, info). playwright_cookie str_of name info)
          (map (\<lambda>t. (tok_name t,
                  JDict [(''value'', JStr (tok_value t)), (''domain'', JStr (tok_domain t)),
                         (''path'', JStr (tok_path t))])) ts) = map token_record ts"
    by (simp add: playwright_cookie_of_token)
  then show ?thesis
    by (simp add: convert_cookies_to_playwright_def spec_mapping_form_def Let_def
          kdocs_cookies_of_tokens del: map_map)
qed

lemma convert_flat_form:
  "convert_cookies_to_playwright str_of (spec_flat_form ts) = Inr (map token_record ts)"
  by (simp add: convert_cookies_to_playwright_def spec_flat_form_def)

text \<open>
  C2, as amended: a credential blob in mapping form normalizes to the records of the
  equivalent flat sequence followed by a copy under \<open>.kdocs.cn\<close> of each record scoped
  to \<open>.wps.cn\<close>; a blob in flat form is returned as it is, with no copy added; so the
  two forms normalize to the same token list exactly when no token is scoped to
  \<open>.wps.cn\<close>.
\<close>

theorem mapping_form_adds_kdocs_copies:
  "convert_cookies_to_playwright str_of (spec_mapping_form ts)
     = Inr (map token_record ts
            @ map (\<lambda>t. token_record (t\<lparr>tok_domain := ''.kdocs.cn''\<rparr>))
                (filter (\<lambda>t. tok_domain t = ''.wps.cn'') ts))
   \<and> convert_cookies_to_playwright str_of (spec_flat_form ts) = Inr (map token_record ts)
   \<and> (convert_cookies_to_playwright str_of (spec_mapping_form ts)
        = convert_cookies_to_playwright str_of (spec_flat_form ts)
      \<longleftrightarrow> filter (\<lambda>t. tok_domain t = ''.wps.cn'') ts = [])"
  by (simp add: convert_mapping_form convert_flat_form)

text \<open>
  C2 as stated fails: for the single token \<open>rtk\<close> scoped to \<open>.wps.cn\<close> the mapping
  form normalizes to two records and the flat form to one.
\<close>

theorem mapping_and_flat_form_differ:
  "convert_cookies_to_playwright demo_str_of (spec_mapping_form [demo_token ''.wps.cn''])
     = Inr [token_record (demo_token ''.wps.cn''), token_record (demo_token ''.kdocs.cn'')]
   \<and> convert_cookies_to_playwright demo_str_of (spec_flat_form [demo_token ''.wps.cn''])
     = Inr [token_record (demo_token ''.wps.cn'')]
   \<and> convert_cookies_to_playwright demo_str_of (spec_mapping_form [demo_token ''.wps.cn''])
     \<noteq> convert_cookies_to_playwright demo_str_of (spec_flat_form [demo_token ''.wps.cn''])"
  by (simp add: convert_cookies_to_playwright_def spec_mapping_form_def spec_flat_form_def
        playwright_cookie_def kdocs_cookie_def token_record_def demo_token_def dict_get_def)

theorem mapping_form_adds_kdocs_copies_witness:
  "convert_cookies_to_playwright demo_str_of
       (spec_mapping_form [demo_token ''.wps.cn'', demo_token ''.example.org''])
     = Inr [token_record (demo_token ''.wps.cn''), token_record (demo_token ''.example.org''),
            token_record (demo_token ''.kdocs.cn'')]
   \<and> convert_cookies_to_playwright demo_str_of (spec_flat_form [demo_token ''.example.org''])
     = convert_cookies_to_playwright demo_str_of (spec_mapping_form [demo_token ''.example.org''])"
  using mapping_form_adds_kdocs_copies [of demo_str_of "[demo_token ''.wps.cn'', demo_token ''.example.org'']"]
    mapping_form_adds_kdocs_copies [of demo_str_of "[demo_token ''.example.org'']"]
  by (simp add: demo_token_def)


section \<open>The login handshake\<close>


lemma keys_dict_set: "fst ` set (dict_set d k v) = insert k (fst ` set d)"
  by (induction d k v rule: dict_set.induct) auto

lemma dict_has_iff: "dict_has d k \<longleftrightarrow> k \<in> fst ` set d"
  by (simp add: dict_has_def map_of_eq_None_iff)

lemma keys_fold_dict_set:
  "fst ` set (fold (\<lambda>c d. dict_set d (bc_name c) (f c)) cs d0) = fst ` set d0 \<union> bc_name ` set cs"
  by (induction cs arbitrary: d0) (auto simp: keys_dict_set)

lemma keys_cookies_to_dict: "fst ` set (cookies_to_dict cs) = bc_name ` set cs"
  unfolding cookies_to_dict_def by (simp add: keys_fold_dict_set)

lemma has_auth_iff:
  "list_ex (\<lambda>name. dict_has (cookies_to_dict cs) name) AUTH_COOKIE_NAMES
     \<longleftrightarrow> (\<exists>n \<in> set AUTH_COOKIE_NAMES. n \<in> bc_name ` set cs)"
  by (simp add: list_ex_iff dict_has_iff keys_cookies_to_dict)

text \<open>
  C9: \<open>wait_for_login\<close> succeeds exactly when the page was initialised, the browser
  returned its cookies, and at least one of the names \<open>wps_sid\<close>, \<open>rtk\<close>,
  \<open>kso_sid\<close> is among them.  When the browser returns cookies with none of these names,
  the result is a failure without credentials whose error text says that the login was
  not completed (for cookies without an authentication cookie: "login not completed,
  authentication credential missing"; for no cookie at all: "no cookie obtained").  The
  result carries credentials iff it is a success, and \<open>wait_and_login\<close> keeps the
  result and sets the session's status to \<open>success\<close> iff the result is a success.
\<close>

theorem login_needs_auth_token:
  "(lr_success (wait_for_login int_of page read)
      \<longleftrightarrow> page \<and> (\<exists>cs. read = Inr cs \<and> (\<exists>n \<in> set AUTH_COOKIE_NAMES. n \<in> bc_name ` set cs)))
   \<and> (page \<and> read = Inr cs \<and> \<not> (\<exists>n \<in> set AUTH_COOKIE_NAMES. n \<in> bc_name ` set cs)
        \<longrightarrow> wait_for_login int_of page read
            = LoginResult False None None
                (Some (if cs = [] then MSG_NO_COOKIE else MSG_LOGIN_INCOMPLETE)))
   \<and> (lr_cookies (wait_for_login int_of page read) \<noteq> None
        \<longleftrightarrow> lr_success (wait_for_login int_of page read))
   \<and> (status (wait_and_login (wait_for_login int_of page read) s) = ''success''
        \<longleftrightarrow> lr_success (wait_for_login int_of page read))
   \<and> result (wait_and_login (wait_for_login int_of page read) s)
        = Some (wait_for_login int_of page read)"
proof -
  have a: "lr_success (wait_for_login int_of page read)
      \<longleftrightarrow> page \<and> (\<exists>cs. read = Inr cs \<and> (\<exists>n \<in> set AUTH_COOKIE_NAMES. n \<in> bc_name ` set cs))"
    by (cases read)
       (auto simp: wait_for_login_def LoginResult_def Let_def has_auth_iff)
  have b: "page \<and> read = Inr cs \<and> \<not> (\<exists>n \<in> set AUTH_COOKIE_NAMES. n \<in> bc_name ` set cs)
        \<longrightarrow> wait_for_login int_of page read
            = LoginResult False None None
                (Some (if cs = [] then MSG_NO_COOKIE else MSG_LOGIN_INCOMPLETE))"
    by (simp add: wait_for_login_def Let_def has_auth_iff)
  have c: "lr_cookies (wait_for_login int_of page read) \<noteq> None
        \<longleftrightarrow> lr_success (wait_for_login int_of page read)"
    by (cases read) (simp_all add: wait_for_login_def LoginResult_def Let_def)
  have d: "status (wait_and_login r s) = ''success'' \<longleftrightarrow> lr_success r"
    and e: "result (wait_and_login r s) = Some r" for r
    by (simp_all add: wait_and_login_def)
  from a b c d e show ?thesis
    by blast
qed

theorem login_needs_auth_token_witness:
  "wait_for_login demo_int_of True (Inr [demo_cookie ''csrf'' ''x''])
     = LoginResult False None None (Some MSG_LOGIN_INCOMPLETE)
   \<and> wait_for_login demo_int_of True (Inr []) = LoginResult False None None (Some MSG_NO_COOKIE)
   \<and> lr_success (wait_for_login demo_int_of True
         (Inr [demo_cookie ''csrf'' ''x'', demo_cookie ''rtk'' ''abc'']))
   \<and> lr_cookies (wait_for_login demo_int_of True
         (Inr [demo_cookie ''csrf'' ''x'', demo_cookie ''rtk'' ''abc''])) \<noteq> None"
proof -
  have n1: "\<not> (\<exists>n \<in> set AUTH_COOKIE_NAMES. n \<in> bc_name ` set [demo_cookie ''csrf'' ''x''])"
    by (simp add: AUTH_COOKIE_NAMES_def demo_cookie_def)
  have n2: "\<not> (\<exists>n \<in> set AUTH_COOKIE_NAMES. n \<in> bc_name ` set ([] :: browser_cookie list))"
    by simp
  have y: "\<exists>n \<in> set AUTH_COOKIE_NAMES.
             n \<in> bc_name ` set [demo_cookie ''csrf'' ''x'', demo_cookie ''rtk'' ''abc'']"
    by (simp add: AUTH_COOKIE_NAMES_def demo_cookie_def)
  have 1: "wait_for_login demo_int_of True (Inr [demo_cookie ''csrf'' ''x''])
             = LoginResult False None None (Some MSG_LOGIN_INCOMPLETE)"
    using login_needs_auth_token
            [of demo_int_of True "Inr [demo_cookie ''csrf'' ''x'']" "[demo_cookie ''csrf'' ''x'']"]
          n1
    by simp
  have 2: "wait_for_login demo_int_of True (Inr []) = LoginResult False None None (Some MSG_NO_COOKIE)"
    using login_needs_auth_token [of demo_int_of True "Inr []" "[]"] n2
    by simp
  have 3: "lr_success (wait_for_login demo_int_of True
         (Inr [demo_cookie ''csrf'' ''x'', demo_cookie ''rtk'' ''abc'']))"
    using login_needs_auth_token
            [of demo_int_of True "Inr [demo_cookie ''csrf'' ''x'', demo_cookie ''rtk'' ''abc'']"] y
    by blast
  have 4: "lr_cookies (wait_for_login demo_int_of True
         (Inr [demo_cookie ''csrf'' ''x'', demo_cookie ''rtk'' ''abc''])) \<noteq> None"
    using login_needs_auth_token
            [of demo_int_of True "Inr [demo_cookie ''csrf'' ''x'', demo_cookie ''rtk'' ''abc'']"] 3
    by blast
  from 1 2 3 4 show ?thesis
    by blast
qed


section \<open>Schedule triggers\<close>


text \<open>
  C8: \<open>add_schedule\<close> with an hour outside 0..23 or a minute outside 0..59, and
  \<open>update_schedule\<close> with such an hour or minute among its keyword arguments, return
  the exception \<open>ValueError\<close> (the specification's ValidationError) to the caller
  at once, with the text for the hour when the hour is out of range and the text for the
  minute otherwise, and leave the stored schedule triggers as they were.
\<close>

theorem out_of_range_time_rejected:
  "(\<not> (0 \<le> h \<and> h \<le> 23) \<or> \<not> (0 \<le> m \<and> m \<le> 59)
      \<longrightarrow> add_schedule now name h m db
            = (Inl (ValueError (if \<not> (0 \<le> h \<and> h \<le> 23) then MSG_HOUR_RANGE else MSG_MINUTE_RANGE)),
               db))
   \<and> ((\<exists>x. kw_hour kw = Some x \<and> \<not> (0 \<le> x \<and> x \<le> 23))
        \<or> (\<exists>y. kw_minute kw = Some y \<and> \<not> (0 \<le> y \<and> y \<le> 59))
      \<longrightarrow> update_schedule schedule_id kw db
            = (Inl (ValueError (if \<exists>x. kw_hour kw = Some x \<and> \<not> (0 \<le> x \<and> x \<le> 23)
                                then MSG_HOUR_RANGE else MSG_MINUTE_RANGE)), db))"
proof -
  have a: "\<not> (0 \<le> h \<and> h \<le> 23) \<or> \<not> (0 \<le> m \<and> m \<le> 59)
      \<longrightarrow> add_schedule now name h m db
            = (Inl (ValueError (if \<not> (0 \<le> h \<and> h \<le> 23) then MSG_HOUR_RANGE else MSG_MINUTE_RANGE)),
               db)"
    by (auto simp: add_schedule_def)
  have b: "(\<exists>x. kw_hour kw = Some x \<and> \<not> (0 \<le> x \<and> x \<le> 23))
        \<or> (\<exists>y. kw_minute kw = Some y \<and> \<not> (0 \<le> y \<and> y \<le> 59))
      \<longrightarrow> update_schedule schedule_id kw db
            = (Inl (ValueError (if \<exists>x. kw_hour kw = Some x \<and> \<not> (0 \<le> x \<and> x \<le> 23)
                                then MSG_HOUR_RANGE else MSG_MINUTE_RANGE)), db)"
    by (cases "kw_hour kw"; cases "kw_minute kw") (auto simp: update_schedule_def)
  from a b show ?thesis
    by blast
qed

theorem out_of_range_time_rejected_witness:
  "\<not> ((0::int) \<le> 24 \<and> (24::int) \<le> 23)
   \<and> add_schedule ''2024-01-02 19:00:00'' ''late'' 24 0 demo_schedule_db
       = (Inl (ValueError MSG_HOUR_RANGE), demo_schedule_db)
   \<and> kw_hour (demo_kwargs (Some 24) None) = Some 24
   \<and> update_schedule 1 (demo_kwargs (Some 24) None) demo_schedule_db
       = (Inl (ValueError MSG_HOUR_RANGE), demo_schedule_db)
   \<and> kw_minute (demo_kwargs (Some 7) (Some 60)) = Some 60 \<and> \<not> ((0::int) \<le> 60 \<and> (60::int) \<le> 59)
   \<and> update_schedule 1 (demo_kwargs (Some 7) (Some 60)) demo_schedule_db
       = (Inl (ValueError MSG_MINUTE_RANGE), demo_schedule_db)"
proof -
  have h: "\<not> ((0::int) \<le> 24 \<and> (24::int) \<le> 23)" and m: "\<not> ((0::int) \<le> 60 \<and> (60::int) \<le> 59)"
    by simp_all
  have k1: "kw_hour (demo_kwargs (Some 24) None) = Some 24"
    and k2: "kw_minute (demo_kwargs (Some 7) (Some 60)) = Some 60"
    and k3: "kw_hour (demo_kwargs (Some 7) (Some 60)) = Some 7"
    by (simp_all add: demo_kwargs_def)
  have 1: "add_schedule ''2024-01-02 19:00:00'' ''late'' 24 0 demo_schedule_db
       = (Inl (ValueError MSG_HOUR_RANGE), demo_schedule_db)"
    using out_of_range_time_rejected [of 24 0 "''2024-01-02 19:00:00''" "''late''" demo_schedule_db] h
    by simp
  have 2: "update_schedule 1 (demo_kwargs (Some 24) None) demo_schedule_db
       = (Inl (ValueError MSG_HOUR_RANGE), demo_schedule_db)"
    using out_of_range_time_rejected [of 0 0 _ _ demo_schedule_db "demo_kwargs (Some 24) None" 1] k1
    by simp
  have 3: "update_schedule 1 (demo_kwargs (Some 7) (Some 60)) demo_schedule_db
       = (Inl (ValueError MSG_MINUTE_RANGE), demo_schedule_db)"
    using out_of_range_time_rejected [of 0 0 _ _ demo_schedule_db "demo_kwargs (Some 7) (Some 60)" 1] k2 k3
    by simp
  from h m k1 k2 1 2 3 show ?thesis
    by blast
qed


section \<open>The registry of login sessions\<close>


lemma get_login_status_keeps_absent:
  "login_sessions st c = None \<Longrightarrow> login_sessions (snd (get_login_status token c' st)) c = None"
  by (auto simp: get_login_status_def Let_def create_session_def split: option.splits)

lemma polls_keeps_absent:
  "login_sessions st c = None \<Longrightarrow> login_sessions (polls ps st) c = None"
proof (induction ps arbitrary: st)
  case Nil
  then show ?case by simp
next
  case (Cons p ps)
  obtain token c' where p: "p = (token, c')"
    by (cases p)
  from Cons.prems have "login_sessions (snd (get_login_status token c' st)) c = None"
    by (rule get_login_status_keeps_absent)
  then show ?case
    unfolding p by (simp add: Cons.IH)
qed

lemma get_login_status_absent:
  "login_sessions st c = None \<Longrightarrow> get_login_status token c st = (Inl (HTTPException 404 MSG_NO_SESSION), st)"
  by (simp add: get_login_status_def)

lemma get_login_status_terminal:
  assumes "login_sessions st c = Some ref"
    and "status (objects st ref) = ''success'' \<or> status (objects st ref) = ''failed''"
  shows "\<exists>reply st'. get_login_status token c st = (Inr reply, st')
           \<and> login_sessions st' c = None
           \<and> objects st' ref = close (objects st ref)"
  using assms
  by (auto simp: get_login_status_def Let_def create_session_def)

text \<open>
  C5: \<open>get_login_status\<close> raises the 404 "no such session" exception, and changes
  nothing, when no session is registered under the channel id.  When the registered
  session's status is \<open>success\<close> or \<open>failed\<close>, the call returns its reply after it
  has closed the session and removed it from \<open>login_sessions\<close>; from then on, after
  any further status polls for any channel ids, a status call for the same channel id
  raises the 404 exception.
\<close>

theorem terminal_status_retires_session:
  "(login_sessions st c = None
      \<longrightarrow> get_login_status token c st = (Inl (HTTPException 404 MSG_NO_SESSION), st))
   \<and> (login_sessions st c = Some ref
       \<and> (status (objects st ref) = ''success'' \<or> status (objects st ref) = ''failed'')
      \<longrightarrow> (\<exists>reply st'. get_login_status token c st = (Inr reply, st')
             \<and> login_sessions st' c = None
             \<and> close_calls (objects st' ref) = close_calls (objects st ref) + 1
             \<and> (\<forall>ps token'. get_login_status token' c (polls ps st')
                     = (Inl (HTTPException 404 MSG_NO_SESSION), polls ps st'))))"
proof -
  have a: "login_sessions st c = None
      \<longrightarrow> get_login_status token c st = (Inl (HTTPException 404 MSG_NO_SESSION), st)"
    by (simp add: get_login_status_absent)
  have b: "\<exists>reply st'. get_login_status token c st = (Inr reply, st')
             \<and> login_sessions st' c = None
             \<and> close_calls (objects st' ref) = close_calls (objects st ref) + 1
             \<and> (\<forall>ps token'. get_login_status token' c (polls ps st')
                     = (Inl (HTTPException 404 MSG_NO_SESSION), polls ps st'))"
    if h: "login_sessions st c = Some ref"
      "status (objects st ref) = ''success'' \<or> status (objects st ref) = ''failed''"
  proof -
    from get_login_status_terminal [OF h, of token]
    obtain reply st' where r: "get_login_status token c st = (Inr reply, st')"
      and n: "login_sessions st' c = None" and o: "objects st' ref = close (objects st ref)"
      by blast
    have "get_login_status token' c (polls ps st')
            = (Inl (HTTPException 404 MSG_NO_SESSION), polls ps st')" for ps token'
      by (rule get_login_status_absent) (rule polls_keeps_absent [OF n])
    with r n o show ?thesis
      by (simp add: close_def)
  qed
  from a b show ?thesis
    by blast
qed

theorem terminal_status_retires_session_witness:
  "login_sessions (demo_app ''failed'') ''ch_1'' = Some 0
   \<and> status (objects (demo_app ''failed'') 0) = ''failed''
   \<and> login_sessions (demo_app ''failed'') ''ch_9'' = None
   \<and> fst (get_login_status ''t0'' ''ch_9'' (demo_app ''failed''))
       = Inl (HTTPException 404 MSG_NO_SESSION)
   \<and> fst (get_login_status ''t1'' ''ch_1'' (demo_app ''failed''))
       = Inr ([(''status'', JStr ''failed''), (''error'', JNull)], None)
   \<and> fst (get_login_status ''t2'' ''ch_1'' (snd (get_login_status ''t1'' ''ch_1'' (demo_app ''failed''))))
       = Inl (HTTPException 404 MSG_NO_SESSION)"
proof -
  have h1: "login_sessions (demo_app ''failed'') ''ch_1'' = Some 0"
    and h2: "status (objects (demo_app ''failed'') 0) = ''failed''"
    and h3: "login_sessions (demo_app ''failed'') ''ch_9'' = None"
    by (simp_all add: demo_app_def demo_session_def)
  note t = terminal_status_retires_session [of "demo_app ''failed''" _ _ 0]
  have 1: "fst (get_login_status ''t0'' ''ch_9'' (demo_app ''failed''))
       = Inl (HTTPException 404 MSG_NO_SESSION)"
    using t [of "''ch_9''" "''t0''"] h3 by simp
  from t [of "''ch_1''" "''t1''"] h1 h2
  obtain reply st' where r: "get_login_status ''t1'' ''ch_1'' (demo_app ''failed'') = (Inr reply, st')"
    and l: "\<forall>ps token'. get_login_status token' ''ch_1'' (polls ps st')
                     = (Inl (HTTPException 404 MSG_NO_SESSION), polls ps st')"
    by blast
  from l have "get_login_status ''t2'' ''ch_1'' (polls [] st')
                 = (Inl (HTTPException 404 MSG_NO_SESSION), polls [] st')"
    by blast
  then have 3: "fst (get_login_status ''t2'' ''ch_1''
                  (snd (get_login_status ''t1'' ''ch_1'' (demo_app ''failed''))))
                = Inl (HTTPException 404 MSG_NO_SESSION)"
    by (simp add: r)
  have 2: "fst (get_login_status ''t1'' ''ch_1'' (demo_app ''failed''))
       = Inr ([(''status'', JStr ''failed''), (''error'', JNull)], None)"
    by (simp add: get_login_status_def demo_app_def demo_session_def Let_def
          json_of_string_option_def)
  from h1 h2 h3 1 2 3 show ?thesis
    by blast
qed


lemma demo_login_value:
  "demo_login =
     LoginResult True
       (Some [(''rtk'', JDict [(''value'', JStr ''abc''), (''domain'', JStr ''.wps.cn''),
                               (''path'', JStr ''/'')]),
              (''uid'', JDict [(''value'', JStr ''1001''), (''domain'', JStr ''.wps.cn''),
                               (''path'', JStr ''/'')])])
       (Some 1001) None"
  by (simp add: demo_login_def wait_for_login_def cookies_to_dict_def demo_cookie_def
        demo_int_of_def AUTH_COOKIE_NAMES_def dict_has_def Let_def)

text \<open>
  C6: a status poll that observes \<open>success\<close> should find the account id already
  attached to the session.  \<open>wait_and_login\<close> sets the status to \<open>success\<close> before
  \<open>wait_for_scan_task\<close> has stored the account and attached its id, and the task waits
  for the database in between.  A poll that runs at that point replies \<open>success\<close> with
  \<open>user_id\<close> null, sets no session cookie and retires the session, so that the id
  attached afterwards is never delivered: the next poll raises 404.  When the task runs to
  its end before the poll, the reply carries the account id and the cookie is set.
\<close>

theorem poll_sees_success_without_account_id:
  "fst (get_login_status ''t1'' ''ch_1''
          (scan_task_login_done 0 demo_login (demo_app ''waiting'')))
     = Inr ([(''status'', JStr ''success''), (''user_id'', JNull), (''wps_uid'', JInt 1001)], None)
   \<and> login_sessions (snd (get_login_status ''t1'' ''ch_1''
          (scan_task_login_done 0 demo_login (demo_app ''waiting'')))) ''ch_1'' = None
   \<and> fst (get_login_status ''t2'' ''ch_1''
          (scan_task_user_added (demo_env True) 0 demo_login
             (snd (get_login_status ''t1'' ''ch_1''
                (scan_task_login_done 0 demo_login (demo_app ''waiting''))))))
     = Inl (HTTPException 404 MSG_NO_SESSION)
   \<and> fst (get_login_status ''t1'' ''ch_1''
          (wait_for_scan_task (demo_env True) ''ch_1'' demo_login (demo_app ''waiting'')))
     = Inr ([(''status'', JStr ''success''), (''user_id'', JInt 1), (''wps_uid'', JInt 1001)],
            Some ''t1'')"
proof -
  have g: "get_login_status ''t1'' ''ch_1'' (scan_task_login_done 0 demo_login (demo_app ''waiting''))
     = (Inr ([(''status'', JStr ''success''), (''user_id'', JNull), (''wps_uid'', JInt 1001)], None),
        (scan_task_login_done 0 demo_login (demo_app ''waiting''))
          \<lparr>objects := (objects (scan_task_login_done 0 demo_login (demo_app ''waiting'')))
               (0 := close (objects (scan_task_login_done 0 demo_login (demo_app ''waiting'')) 0)),
            login_sessions := Map.empty\<rparr>)"
    by (simp add: get_login_status_def scan_task_login_done_def demo_app_def demo_session_def
          demo_login_value LoginResult_def wait_and_login_def Let_def json_of_int_option_def)
  have 1: "fst (get_login_status ''t1'' ''ch_1''
          (scan_task_login_done 0 demo_login (demo_app ''waiting'')))
     = Inr ([(''status'', JStr ''success''), (''user_id'', JNull), (''wps_uid'', JInt 1001)], None)"
    by (simp add: g)
  have 2: "login_sessions (snd (get_login_status ''t1'' ''ch_1''
          (scan_task_login_done 0 demo_login (demo_app ''waiting'')))) ''ch_1'' = None"
    by (simp add: g)
  have 3: "fst (get_login_status ''t2'' ''ch_1''
          (scan_task_user_added (demo_env True) 0 demo_login
             (snd (get_login_status ''t1'' ''ch_1''
                (scan_task_login_done 0 demo_login (demo_app ''waiting''))))))
     = Inl (HTTPException 404 MSG_NO_SESSION)"
  proof -
    have "login_sessions (scan_task_user_added e ref r st) c = login_sessions st c" for e ref r st c
      by (simp add: scan_task_user_added_def Let_def split: prod.splits)
    with 2 show ?thesis
      by (simp add: get_login_status_absent)
  qed
  have 4: "fst (get_login_status ''t1'' ''ch_1''
          (wait_for_scan_task (demo_env True) ''ch_1'' demo_login (demo_app ''waiting'')))
     = Inr ([(''status'', JStr ''success''), (''user_id'', JInt 1), (''wps_uid'', JInt 1001)],
            Some ''t1'')"
    by (simp add: get_login_status_def wait_for_scan_task_def scan_task_login_done_def
          scan_task_user_added_def add_user_def demo_app_def demo_session_def demo_world_def
          demo_user_def demo_env_def demo_login_value LoginResult_def wait_and_login_def Let_def
          json_of_int_option_def create_session_def)
  from 1 2 3 4 show ?thesis
    by blast
qed


section \<open>The scheduler\<close>

text \<open>The decimal text of an integer determines the integer.\<close>


lemma digit_char_inj:
  assumes "a < 10" and "b < 10" and "digit_char a = digit_char b"
  shows "a = b"
proof -
  have "distinct ''0123456789''"
    by simp
  moreover have "a < length ''0123456789''" and "b < length ''0123456789''"
    using assms(1,2) by simp_all
  ultimately show ?thesis
    using assms(3) unfolding digit_char_def by (simp only: nth_eq_iff_index_eq)
qed

lemma str_nat_not_Nil: "str_nat n \<noteq> []"
  by (subst str_nat.simps) simp

lemma str_nat_digits: "set (str_nat n) \<subseteq> set ''0123456789''"
proof (induction n rule: str_nat.induct)
  case (1 n)
  have d: "digit_char k \<in> set ''0123456789''" if "k < 10" for k
    unfolding digit_char_def using that by (intro nth_mem) simp
  show ?case
  proof (cases "n < 10")
    case True
    then show ?thesis
      using d [of n] by (subst str_nat.simps) simp
  next
    case False
    then show ?thesis
      using "1.IH" d [of "n mod 10"] by (subst str_nat.simps) simp
  qed
qed

lemma str_nat_inj: "str_nat a = str_nat b \<Longrightarrow> a = b"
proof (induction a arbitrary: b rule: str_nat.induct)
  case (1 a)
  show ?case
  proof (cases "a < 10")
    case True
    note a = True
    show ?thesis
    proof (cases "b < 10")
      case True
      with a "1.prems" show ?thesis
        by (simp add: str_nat.simps [of a] str_nat.simps [of b] digit_char_inj)
    next
      case False
      with a "1.prems" str_nat_not_Nil [of "b div 10"] show ?thesis
        by (simp add: str_nat.simps [of a] str_nat.simps [of b])
    qed
  next
    case False
    note a = False
    show ?thesis
    proof (cases "b < 10")
      case True
      with a "1.prems" str_nat_not_Nil [of "a div 10"] show ?thesis
        by (simp add: str_nat.simps [of a] str_nat.simps [of b])
    next
      case False
      with a "1.prems" have e: "str_nat (a div 10) = str_nat (b div 10)"
        and d: "digit_char (a mod 10) = digit_char (b mod 10)"
        by (simp_all add: str_nat.simps [of a] str_nat.simps [of b])
      from "1.IH" [OF a e] have "a div 10 = b div 10" .
      moreover from d have "a mod 10 = b mod 10"
        by (intro digit_char_inj) simp_all
      ultimately show ?thesis
        by (metis div_mult_mod_eq)
    qed
  qed
qed

lemma str_int_inj: "str_int a = str_int b \<Longrightarrow> a = b"
proof -
  assume e: "str_int a = str_int b"
  have m: "hd (str_nat n) \<noteq> CHR ''-''" for n
  proof -
    have "hd (str_nat n) \<in> set (str_nat n)"
      by (simp add: str_nat_not_Nil)
    with str_nat_digits [of n] show ?thesis
      by auto
  qed
  show "a = b"
  proof (cases "a < 0"; cases "b < 0")
    assume "a < 0" "b < 0"
    with e have "nat (- a) = nat (- b)"
      by (simp add: str_int_def str_nat_inj)
    with \<open>a < 0\<close> \<open>b < 0\<close> show ?thesis by simp
  next
    assume "a < 0" "\<not> b < 0"
    with e have "CHR ''-'' # str_nat (nat (- a)) = str_nat (nat b)"
      by (simp add: str_int_def)
    then have "hd (str_nat (nat b)) = CHR ''-''"
      by (metis list.sel(1))
    with m [of "nat b"] show ?thesis
      by simp
  next
    assume "\<not> a < 0" "b < 0"
    with e have "str_nat (nat a) = CHR ''-'' # str_nat (nat (- b))"
      by (simp add: str_int_def)
    then have "hd (str_nat (nat a)) = CHR ''-''"
      by (metis list.sel(1))
    with m [of "nat a"] show ?thesis
      by simp
  next
    assume "\<not> a < 0" "\<not> b < 0"
    with e have "nat a = nat b"
      by (simp add: str_int_def str_nat_inj)
    with \<open>\<not> a < 0\<close> \<open>\<not> b < 0\<close> show ?thesis by simp
  qed
qed

text \<open>The two loops of \<open>setup_scheduler_from_db\<close>.\<close>


lemma remove_loop:
  "fold (\<lambda>j acc. if P (job_id j) then remove_job (job_id j) acc else acc) snap acc
     = filter (\<lambda>j. \<not> (P (job_id j) \<and> job_id j \<in> job_id ` set snap)) acc"
proof (induction snap arbitrary: acc)
  case Nil
  then show ?case by simp
next
  case (Cons x xs)
  show ?case
    by (auto simp: Cons.IH remove_job_def intro!: filter_cong)
qed

lemma remove_loop_self:
  "fold (\<lambda>j acc. if P (job_id j) then remove_job (job_id j) acc else acc) js js
     = filter (\<lambda>j. \<not> P (job_id j)) js"
  unfolding remove_loop by (rule filter_cong) auto

lemma checkin_job_startswith: "startswith (job_id (checkin_job c)) ''checkin_''"
  by (simp add: startswith_def checkin_job_def)

lemma add_job_after_base:
  assumes "\<forall>x \<in> set base. job_id x \<noteq> job_id j"
  shows "add_job j (base @ xs) = base @ add_job j xs"
proof -
  have "list_ex (\<lambda>x. job_id x = job_id j) (base @ xs) = list_ex (\<lambda>x. job_id x = job_id j) xs"
    using assms by (auto simp: list_ex_iff)
  moreover have "map (\<lambda>x. if job_id x = job_id j then j else x) base = base"
    using assms by (simp add: map_idI)
  ultimately show ?thesis
    by (simp add: add_job_def)
qed

lemma add_loop_after_base:
  assumes "\<forall>x \<in> set base. \<not> startswith (job_id x) ''checkin_''"
  shows "fold (\<lambda>c acc. add_job (checkin_job c) acc) cs (base @ xs)
           = base @ fold (\<lambda>c acc. add_job (checkin_job c) acc) cs xs"
proof (induction cs arbitrary: xs)
  case Nil
  then show ?case by simp
next
  case (Cons c cs)
  have "\<forall>x \<in> set base. job_id x \<noteq> job_id (checkin_job c)"
    using assms checkin_job_startswith [of c] by metis
  then show ?case
    by (simp add: add_job_after_base Cons.IH)
qed

lemma add_job_keeps_checkin:
  assumes "\<forall>x \<in> set xs. startswith (job_id x) ''checkin_''"
  shows "\<forall>x \<in> set (add_job (checkin_job c) xs). startswith (job_id x) ''checkin_''"
  using assms checkin_job_startswith [of c] by (auto simp: add_job_def)

lemma add_loop_keeps_checkin:
  assumes "\<forall>x \<in> set xs. startswith (job_id x) ''checkin_''"
  shows "\<forall>x \<in> set (fold (\<lambda>c acc. add_job (checkin_job c) acc) cs xs).
           startswith (job_id x) ''checkin_''"
  using assms
proof (induction cs arbitrary: xs)
  case Nil
  then show ?case by simp
next
  case (Cons c cs)
  from add_job_keeps_checkin [OF Cons.prems, of c] show ?case
    by (simp add: Cons.IH)
qed

lemma setup_scheduler_from_db_eq:
  "setup_scheduler_from_db db js
     = filter (\<lambda>j. \<not> startswith (job_id j) ''checkin_'') js
       @ fold (\<lambda>c acc. add_job (checkin_job c) acc) (get_enabled_schedules db) []"
proof -
  have "\<forall>x \<in> set (filter (\<lambda>j. \<not> startswith (job_id j) ''checkin_'') js).
          \<not> startswith (job_id x) ''checkin_''"
    by simp
  from add_loop_after_base [OF this, of "get_enabled_schedules db" "[]"] show ?thesis
    by (simp add: setup_scheduler_from_db_def Let_def
          remove_loop_self [of "\<lambda>i. startswith i ''checkin_''"])
qed

lemma setup_scheduler_from_db_idem:
  "setup_scheduler_from_db db (setup_scheduler_from_db db js) = setup_scheduler_from_db db js"
proof -
  let ?A = "fold (\<lambda>c acc. add_job (checkin_job c) acc) (get_enabled_schedules db) []"
  have "\<forall>x \<in> set ?A. startswith (job_id x) ''checkin_''"
    by (rule add_loop_keeps_checkin) simp
  then have "filter (\<lambda>j. \<not> startswith (job_id j) ''checkin_'') ?A = []"
    by (simp add: filter_empty_conv)
  then show ?thesis
    by (simp add: setup_scheduler_from_db_eq)
qed

lemma checkin_job_id_inj: "job_id (checkin_job c) = job_id (checkin_job c') \<longleftrightarrow> sc_id c = sc_id c'"
  by (auto simp: checkin_job_def dest: str_int_inj)

lemma add_loop_distinct:
  assumes "distinct (map sc_id (pre @ cs))"
  shows "fold (\<lambda>c acc. add_job (checkin_job c) acc) cs (map checkin_job pre)
           = map checkin_job (pre @ cs)"
  using assms
proof (induction cs arbitrary: pre)
  case Nil
  then show ?case by simp
next
  case (Cons c cs)
  from Cons.prems have n: "sc_id c \<notin> sc_id ` set pre"
    by auto
  have "\<not> list_ex (\<lambda>x. job_id x = job_id (checkin_job c)) (map checkin_job pre)"
    using n by (force simp: list_ex_iff checkin_job_id_inj image_iff)
  then have a: "add_job (checkin_job c) (map checkin_job pre) = map checkin_job (pre @ [c])"
    by (simp add: add_job_def)
  from Cons.prems have "distinct (map sc_id ((pre @ [c]) @ cs))"
    by simp
  from Cons.IH [OF this] show ?case
    by (simp add: a)
qed

lemma distinct_enabled_ids:
  assumes "distinct (map sc_id (schedule_configs db))"
  shows "distinct (map sc_id (get_enabled_schedules db))"
proof -
  from assms have "distinct (map sc_id (filter sc_is_enabled (schedule_configs db)))"
    by (rule distinct_map_filter)
  then show ?thesis
    by (simp add: get_enabled_schedules_def distinct_map)
qed


text \<open>
  C7: running \<open>setup_scheduler_from_db\<close> a second time on the same stored schedule
  triggers gives the same jobs as the first run.  A run leaves the jobs whose id does not
  start with \<open>checkin_\<close> as they were, and, the ids of the stored triggers being
  distinct (they are the primary key), the jobs whose id starts with \<open>checkin_\<close> are
  then exactly one job per enabled trigger, with the id \<open>checkin_\<close> followed by the
  trigger's id, and these ids are pairwise different: no timer is missing and none is
  there twice.
\<close>

theorem reconcile_twice_same_timers:
  "setup_scheduler_from_db db (setup_scheduler_from_db db js) = setup_scheduler_from_db db js
   \<and> filter (\<lambda>j. \<not> startswith (job_id j) ''checkin_'') (setup_scheduler_from_db db js)
       = filter (\<lambda>j. \<not> startswith (job_id j) ''checkin_'') js
   \<and> (distinct (map sc_id (schedule_configs db))
        \<longrightarrow> filter (\<lambda>j. startswith (job_id j) ''checkin_'') (setup_scheduler_from_db db js)
              = map checkin_job (get_enabled_schedules db)
          \<and> distinct (map job_id (map checkin_job (get_enabled_schedules db))))"
proof -
  let ?A = "fold (\<lambda>c acc. add_job (checkin_job c) acc) (get_enabled_schedules db) []"
  have ck: "\<forall>x \<in> set ?A. startswith (job_id x) ''checkin_''"
    by (rule add_loop_keeps_checkin) simp
  then have n: "filter (\<lambda>j. \<not> startswith (job_id j) ''checkin_'') ?A = []"
    and y: "filter (\<lambda>j. startswith (job_id j) ''checkin_'') ?A = ?A"
    by (simp_all add: filter_empty_conv filter_id_conv)
  have b: "filter (\<lambda>j. \<not> startswith (job_id j) ''checkin_'') (setup_scheduler_from_db db js)
       = filter (\<lambda>j. \<not> startswith (job_id j) ''checkin_'') js"
    by (simp add: setup_scheduler_from_db_eq n)
  have c: "filter (\<lambda>j. startswith (job_id j) ''checkin_'') (setup_scheduler_from_db db js)
              = map checkin_job (get_enabled_schedules db)
          \<and> distinct (map job_id (map checkin_job (get_enabled_schedules db)))"
    if d: "distinct (map sc_id (schedule_configs db))"
  proof -
    from distinct_enabled_ids [OF d] have e: "distinct (map sc_id (get_enabled_schedules db))" .
    then have "distinct (map sc_id ([] @ get_enabled_schedules db))"
      by simp
    from add_loop_distinct [OF this] have A: "?A = map checkin_job (get_enabled_schedules db)"
      by simp
    have "inj_on (\<lambda>c. job_id (checkin_job c)) (set (get_enabled_schedules db))"
      using e by (auto simp: inj_on_def checkin_job_id_inj distinct_map)
    with e have "distinct (map (\<lambda>c. job_id (checkin_job c)) (get_enabled_schedules db))"
      by (simp add: distinct_map)
    then have "distinct (map job_id (map checkin_job (get_enabled_schedules db)))"
      by (simp add: comp_def)
    with A y show ?thesis
      by (simp add: setup_scheduler_from_db_eq)
  qed
  from setup_scheduler_from_db_idem [of db js] b c show ?thesis
    by blast
qed

theorem reconcile_twice_same_timers_witness:
  "distinct (map sc_id (schedule_configs demo_schedule_db))
   \<and> setup_scheduler_from_db demo_schedule_db (setup_scheduler_from_db demo_schedule_db demo_jobs)
       = setup_scheduler_from_db demo_schedule_db demo_jobs
   \<and> map job_id (filter (\<lambda>j. startswith (job_id j) ''checkin_'')
         (setup_scheduler_from_db demo_schedule_db demo_jobs)) = [''checkin_2'', ''checkin_1'']
   \<and> map job_id (filter (\<lambda>j. \<not> startswith (job_id j) ''checkin_'')
         (setup_scheduler_from_db demo_schedule_db demo_jobs)) = [''backup'']"
proof -
  note t = reconcile_twice_same_timers [of demo_schedule_db demo_jobs]
  have d: "distinct (map sc_id (schedule_configs demo_schedule_db))"
    by (simp add: demo_schedule_db_def)
  have e: "map (\<lambda>c. job_id (checkin_job c)) (get_enabled_schedules demo_schedule_db)
             = [''checkin_2'', ''checkin_1'']"
    by (simp add: get_enabled_schedules_def demo_schedule_db_def less_eq_prod_def
          checkin_job_def str_int_def str_nat.simps digit_char_def)
  have 1: "setup_scheduler_from_db demo_schedule_db
             (setup_scheduler_from_db demo_schedule_db demo_jobs)
           = setup_scheduler_from_db demo_schedule_db demo_jobs"
    using t by blast
  have "filter (\<lambda>j. startswith (job_id j) ''checkin_'')
          (setup_scheduler_from_db demo_schedule_db demo_jobs)
        = map checkin_job (get_enabled_schedules demo_schedule_db)"
    using t d by blast
  then have 2: "map job_id (filter (\<lambda>j. startswith (job_id j) ''checkin_'')
         (setup_scheduler_from_db demo_schedule_db demo_jobs)) = [''checkin_2'', ''checkin_1'']"
    using e by (simp add: comp_def)
  have "filter (\<lambda>j. \<not> startswith (job_id j) ''checkin_'')
          (setup_scheduler_from_db demo_schedule_db demo_jobs)
        = filter (\<lambda>j. \<not> startswith (job_id j) ''checkin_'') demo_jobs"
    using t by blast
  then have 3: "map job_id (filter (\<lambda>j. \<not> startswith (job_id j) ''checkin_'')
         (setup_scheduler_from_db demo_schedule_db demo_jobs)) = [''backup'']"
    by (simp add: demo_jobs_def startswith_def)
  from d 1 2 3 show ?thesis
    by blast
qed

end
